theory Spec2Isabelle
  imports Complex_Main
begin

unbundle bit_operations_syntax

section \<open>pyptp2: the PTP / CHDK camera client of \<open>ptp2/camera.py\<close>\<close>

text \<open>
  A shallow embedding of the transaction engine of \<open>_CameraBase\<close>, of the capture of
  \<open>PTPCamera\<close> and of the script wait and the file transfers of \<open>CHDKCamera\<close>.
  The module is Python 2: a \<open>str\<close> is a byte string, modelled as \<^typ>\<open>string\<close>
  (a list of 8-bit characters); Python integers are unbounded, modelled as \<^typ>\<open>int\<close>.
  Every \<open>raise\<close> is a value of \<open>error\<close>; a method that mutates the camera returns the
  camera it leaves behind, also when it raises.
\<close>

subsection \<open>Errors\<close>

text \<open>
  One constructor per exception the modelled code can raise. A format string is not
  modelled; the constructor carries the values that the message is formatted from.
\<close>

datatype ptp_message =
    TimeoutWaitingForScript   \<comment> \<open>"Timeout waiting for script to return"\<close>
  | InvalidScriptStatus int   \<comment> \<open>"Invalid response for script status: 0x%X" % (STATUS)\<close>
  | TableMessage string       \<comment> \<open>\<open>CHDKResponses.message[ret_code]\<close>\<close>

datatype error =
    USBError                        \<comment> \<open>the device handle: a read with nothing pending times out\<close>
  | StructError                     \<comment> \<open>\<open>struct.error\<close> of \<open>struct.pack\<close> / \<open>struct.unpack\<close>\<close>
  | UnknownContainerType int        \<comment> \<open>TypeError('Unknown PTP USB container type: %d')\<close>
  | ExpectedResponseContainer int   \<comment> \<open>TypeError('Expected response container, received type: %d')\<close>
  | NonEventContainer int           \<comment> \<open>ValueError('Received non-event container of type {t} ...')\<close>
  | CouldNotOpenSession int         \<comment> \<open>ValueError('Could not open PTP session (got 0x{:x})')\<close>
  | ResponseNotOK int               \<comment> \<open>ValueError('PTP response code was not OK (got 0x{:x})')\<close>
  | ObjectAddedNotReceived          \<comment> \<open>IOError('ObjectAdded event was not received')\<close>
  | CaptureCompleteNotReceived      \<comment> \<open>IOError('CaptureComplete event was not received')\<close>
  | NoSuchFile string               \<comment> \<open>IOError of \<open>open(local_filename, 'rb')\<close>\<close>
  | IndexError                      \<comment> \<open>\<open>params[0]\<close> on an empty parameter list\<close>
  | KeyError int                    \<comment> \<open>\<open>CHDKResponses.message[ret_code]\<close> with no such key\<close>
  | AttributeError string           \<comment> \<open>attribute lookup on \<open>None\<close> or on the wrong container class\<close>
  | NameError string                \<comment> \<open>a name that is bound nowhere\<close>
  | PTPError int ptp_message        \<comment> \<open>PTPError(code, message)\<close>

subsection \<open>Constant tables\<close>

text \<open>
  The modules \<open>typedefs\<close>, \<open>ptp_values\<close> and \<open>chdk_ptp_values\<close> that declare the
  numeric codes are not part of the sources at hand. The codes are therefore a
  parameter of every definition that uses one: a record with one field per constant
  the code names. \<open>CHDK_message\<close> is the dictionary \<open>CHDKResponses.message\<close>.
\<close>

record ptp_values =
  CONTAINER_COMMAND :: int                \<comment> \<open>PTP_CONTAINER_TYPE.COMMAND\<close>
  CONTAINER_DATA :: int                   \<comment> \<open>PTP_CONTAINER_TYPE.DATA\<close>
  CONTAINER_RESPONSE :: int               \<comment> \<open>PTP_CONTAINER_TYPE.RESPONSE\<close>
  CONTAINER_EVENT :: int                  \<comment> \<open>PTP_CONTAINER_TYPE.EVENT\<close>
  OPCODE_OPEN_SESSION :: int              \<comment> \<open>PTP_OPCODE.OPEN_SESSION\<close>
  OPCODE_INITIATE_CAPTURE :: int          \<comment> \<open>PTP_OPCODE.INITIATE_CAPTURE\<close>
  RESPONSE_OK :: int                      \<comment> \<open>PTP_RESPONSE_CODE.OK\<close>
  RESPONSE_SESSION_ALREADY_OPENED :: int  \<comment> \<open>PTP_RESPONSE_CODE.SESSION_ALREADY_OPENED\<close>
  EVENT_OBJECT_ADDED :: int               \<comment> \<open>PTP_EVENT_CODE.OBJECT_ADDED\<close>
  EVENT_CAPTURE_COMPLETE :: int           \<comment> \<open>PTP_EVENT_CODE.CAPTURE_COMPLETE\<close>
  PTP_OC_CHDK :: int
  CHDK_TempData :: int                    \<comment> \<open>CHDKOperations.TempData\<close>
  CHDK_UploadFile :: int                  \<comment> \<open>CHDKOperations.UploadFile\<close>
  CHDK_DownloadFile :: int                \<comment> \<open>CHDKOperations.DownloadFile\<close>
  CHDK_ScriptStatus :: int                \<comment> \<open>CHDKOperations.ScriptStatus\<close>
  CHDK_ReadScriptMsg :: int               \<comment> \<open>CHDKOperations.ReadScriptMsg\<close>
  CHDK_LUA :: int                         \<comment> \<open>CHDKScriptLanguage.LUA\<close>
  STATUS_NONE :: int                      \<comment> \<open>CHDKScriptStatus.NONE\<close>
  STATUS_RUN :: int                       \<comment> \<open>CHDKScriptStatus.RUN\<close>
  STATUS_MSG :: int                       \<comment> \<open>CHDKScriptStatus.MSG\<close>
  TEMPDATA_CLEAR :: int                   \<comment> \<open>CHDKTempData.CLEAR\<close>
  CHDK_OK :: int                          \<comment> \<open>CHDKResponses.OK\<close>
  CHDK_message :: "int \<rightharpoonup> string"         \<comment> \<open>CHDKResponses.message\<close>
  TRANSACTION_CANCELLED :: int            \<comment> \<open>StandardResponses.TRANSACTION_CANCELLED\<close>
  UNDEFINED :: int                        \<comment> \<open>StandardResponses.UNDEFINED\<close>

text \<open>
  One table of codes, for running the definitions on concrete devices: the codes of
  the PTP standard and of CHDK's PTP extension, and a message table with two entries.
\<close>

definition std_values :: ptp_values where
  "std_values =
     \<lparr> CONTAINER_COMMAND = 1, CONTAINER_DATA = 2, CONTAINER_RESPONSE = 3, CONTAINER_EVENT = 4,
       OPCODE_OPEN_SESSION = 0x1002, OPCODE_INITIATE_CAPTURE = 0x100E,
       RESPONSE_OK = 0x2001, RESPONSE_SESSION_ALREADY_OPENED = 0x201E,
       EVENT_OBJECT_ADDED = 0x4002, EVENT_CAPTURE_COMPLETE = 0x400D,
       PTP_OC_CHDK = 0x9999,
       CHDK_TempData = 4, CHDK_UploadFile = 5, CHDK_DownloadFile = 6,
       CHDK_ScriptStatus = 8, CHDK_ReadScriptMsg = 10,
       CHDK_LUA = 0,
       STATUS_NONE = 0, STATUS_RUN = 1, STATUS_MSG = 2,
       TEMPDATA_CLEAR = 2,
       CHDK_OK = 0x2001,
       CHDK_message = [0x2001 \<mapsto> ''OK'', 0x2002 \<mapsto> ''General Error''],
       TRANSACTION_CANCELLED = 0x201F, UNDEFINED = 0x2000 \<rparr>"

subsection \<open>Containers and their wire format\<close>

text \<open>
  \<open>ParamContainer\<close> (Command, Response and Event containers: a list of parameters)
  and \<open>DataContainer\<close> (an opaque payload) are classes of the absent module
  \<open>typedefs\<close>. The records hold the attributes that \<open>camera.py\<close> reads and writes.
\<close>

record param_container =
  ptype :: int
  pcode :: int
  ptransaction_id :: int
  params :: "int list"

record data_container =
  dtype :: int
  dcode :: int
  dtransaction_id :: int
  data :: string

text \<open>The value bound to \<open>recvd_data\<close>: an object of either class.\<close>

datatype inbound = DataC data_container | ParamC param_container

text \<open>Little-endian unsigned integers, as \<open>struct\<close> reads and writes them.\<close>

fun le_uint :: "string \<Rightarrow> int" where
  "le_uint [] = 0"
| "le_uint (c # cs) = of_char c + 256 * le_uint cs"

definition pack_H :: "int \<Rightarrow> error + string" where
  \<comment> \<open>\<open>struct.pack('<H', v)\<close>: a value outside the 16-bit range raises\<close>
  "pack_H v =
     (if 0 \<le> v \<and> v < 65536 then Inr [char_of v, char_of (v div 256)] else Inl StructError)"

definition pack_I :: "int \<Rightarrow> error + string" where
  \<comment> \<open>\<open>struct.pack('<I', v)\<close>: a value outside the 32-bit range raises\<close>
  "pack_I v =
     (if 0 \<le> v \<and> v < 4294967296
      then Inr [char_of v, char_of (v div 256), char_of (v div 65536), char_of (v div 16777216)]
      else Inl StructError)"

definition unpack_I :: "string \<Rightarrow> error + int" where
  \<comment> \<open>\<open>struct.unpack('<I', buf[:4])[0]\<close>: fewer than 4 bytes raise\<close>
  "unpack_I buf = (if length buf < 4 then Inl StructError else Inr (le_uint (take 4 buf)))"

definition unpack_IH :: "string \<Rightarrow> error + (int \<times> int)" where
  \<comment> \<open>\<open>struct.unpack('<IH', buf[:6])\<close>: fewer than 6 bytes raise\<close>
  "unpack_IH buf =
     (if length buf < 6 then Inl StructError
      else Inr (le_uint (take 4 buf), le_uint (take 2 (drop 4 buf))))"

text \<open>
  Modelled from the spec: the container codec of the absent module \<open>typedefs\<close>
  (\<open>pack\<close> and the decoding constructors \<open>ParamContainer(buf)\<close>, \<open>DataContainer(buf)\<close>).
  The header is 12 bytes, little-endian: total length (u32, header plus payload) at
  offset 0, kind (u16) at 4, code (u16) at 6, transaction id (u32) at 8; the payload
  starts at offset 12 and is a packed sequence of u32 parameters, or raw bytes for a
  Data container. A field that does not fit its width cannot be encoded, and a
  buffer that is no header followed by whole parameters cannot be decoded. The
  decoders read the payload from all that follows the header.
\<close>

definition pack_header :: "int \<Rightarrow> int \<Rightarrow> int \<Rightarrow> int \<Rightarrow> error + string" where
  "pack_header payload_len kind code tid =
     (case pack_I (12 + payload_len) of Inl e \<Rightarrow> Inl e | Inr l \<Rightarrow>
     (case pack_H kind of Inl e \<Rightarrow> Inl e | Inr k \<Rightarrow>
     (case pack_H code of Inl e \<Rightarrow> Inl e | Inr c \<Rightarrow>
     (case pack_I tid of Inl e \<Rightarrow> Inl e | Inr t \<Rightarrow> Inr (l @ k @ c @ t)))))"

fun pack_params :: "int list \<Rightarrow> error + string" where
  "pack_params [] = Inr []"
| "pack_params (p # ps) =
     (case pack_I p of Inl e \<Rightarrow> Inl e | Inr b \<Rightarrow>
     (case pack_params ps of Inl e \<Rightarrow> Inl e | Inr bs \<Rightarrow> Inr (b @ bs)))"

definition pack_param_container :: "param_container \<Rightarrow> error + string" where
  "pack_param_container c =
     (case pack_params (params c) of Inl e \<Rightarrow> Inl e | Inr payload \<Rightarrow>
     (case pack_header (int (length payload)) (ptype c) (pcode c) (ptransaction_id c) of
        Inl e \<Rightarrow> Inl e
      | Inr h \<Rightarrow> Inr (h @ payload)))"

definition pack_data_container :: "data_container \<Rightarrow> error + string" where
  "pack_data_container d =
     (case pack_header (int (length (data d))) (dtype d) (dcode d) (dtransaction_id d) of
        Inl e \<Rightarrow> Inl e
      | Inr h \<Rightarrow> Inr (h @ data d))"

fun unpack_params :: "string \<Rightarrow> error + int list" where
  "unpack_params [] = Inr []"
| "unpack_params (a # b # c # d # rest) =
     (case unpack_params rest of Inl e \<Rightarrow> Inl e | Inr ps \<Rightarrow> Inr (le_uint [a, b, c, d] # ps))"
| "unpack_params _ = Inl StructError"

definition ParamContainer :: "string \<Rightarrow> error + param_container" where
  "ParamContainer buf =
     (if length buf < 12 then Inl StructError
      else (case unpack_params (drop 12 buf) of
        Inl e \<Rightarrow> Inl e
      | Inr ps \<Rightarrow>
          Inr \<lparr> ptype = le_uint (take 2 (drop 4 buf)), pcode = le_uint (take 2 (drop 6 buf)),
                ptransaction_id = le_uint (take 4 (drop 8 buf)), params = ps \<rparr>))"

definition DataContainer :: "string \<Rightarrow> error + data_container" where
  "DataContainer buf =
     (if length buf < 12 then Inl StructError
      else Inr \<lparr> dtype = le_uint (take 2 (drop 4 buf)), dcode = le_uint (take 2 (drop 6 buf)),
                 dtransaction_id = le_uint (take 4 (drop 8 buf)), data = drop 12 buf \<rparr>)"

subsection \<open>The USB device handle\<close>

text \<open>
  \<open>self._handle\<close> is a pyusb device, outside the repository. It is modelled as a
  scripted device: each inbound endpoint holds the transfers the camera has still to
  deliver, and every call on the handle is recorded in order. A read of \<open>size\<close> bytes
  returns at most \<open>size\<close> bytes of the transfer at the head of its endpoint and leaves
  the rest of that transfer pending; a read with nothing pending raises (the
  transport's timeout). A write always succeeds and returns the number of bytes.
\<close>

datatype endpoint = EP_IN | EP_OUT | EP_INTR

datatype usb_call =
    UsbWrite endpoint string int   \<comment> \<open>endpoint, bytes, timeout\<close>
  | UsbRead endpoint int int       \<comment> \<open>endpoint, size, timeout\<close>

record usb_device =
  bulk_in :: "string list"
  intr_in :: "string list"
  calls :: "usb_call list"

definition pending :: "endpoint \<Rightarrow> usb_device \<Rightarrow> string list" where
  "pending ep d = (case ep of EP_IN \<Rightarrow> bulk_in d | EP_INTR \<Rightarrow> intr_in d | EP_OUT \<Rightarrow> [])"

definition set_pending :: "endpoint \<Rightarrow> string list \<Rightarrow> usb_device \<Rightarrow> usb_device" where
  "set_pending ep q d =
     (case ep of EP_IN \<Rightarrow> d\<lparr>bulk_in := q\<rparr> | EP_INTR \<Rightarrow> d\<lparr>intr_in := q\<rparr> | EP_OUT \<Rightarrow> d)"

definition handle_write :: "endpoint \<Rightarrow> string \<Rightarrow> int \<Rightarrow> usb_device \<Rightarrow> int \<times> usb_device" where
  "handle_write ep bytestr timeout d =
     (int (length bytestr), d\<lparr>calls := calls d @ [UsbWrite ep bytestr timeout]\<rparr>)"

definition handle_read ::
  "endpoint \<Rightarrow> int \<Rightarrow> int \<Rightarrow> usb_device \<Rightarrow> (error + string) \<times> usb_device" where
  "handle_read ep sz timeout d =
     (let d' = d\<lparr>calls := calls d @ [UsbRead ep sz timeout]\<rparr> in
      (case pending ep d of
        [] \<Rightarrow> (Inl USBError, d')
      | x # xs \<Rightarrow>
          if int (length x) \<le> sz then (Inr x, set_pending ep xs d')
          else (Inr (take (nat sz) x), set_pending ep (drop (nat sz) x # xs) d')))"

subsection \<open>\<open>_CameraBase\<close>\<close>

text \<open>
  The camera object (\<open>self\<close>) together with the wall clock that \<open>time.time()\<close> reads:
  \<open>transaction_id\<close> is \<open>self._transaction_id\<close>, \<open>session_id\<close> is \<open>self.session_id\<close> of
  \<open>PTPCamera\<close>, \<open>handle\<close> is the opened device. The clock is a test clock, in seconds:
  only \<open>time.sleep\<close> advances it.
\<close>

record camera =
  transaction_id :: int
  session_id :: int
  handle :: usb_device
  clock :: real

definition bulk_write :: "string \<Rightarrow> int \<Rightarrow> camera \<Rightarrow> int \<times> camera" where
  "bulk_write bytestr timeout s =
     (case handle_write EP_OUT bytestr timeout (handle s) of (n, d) \<Rightarrow> (n, s\<lparr>handle := d\<rparr>))"

definition bulk_read :: "int \<Rightarrow> int \<Rightarrow> camera \<Rightarrow> (error + string) \<times> camera" where
  "bulk_read sz timeout s =
     (case handle_read EP_IN sz timeout (handle s) of (r, d) \<Rightarrow> (r, s\<lparr>handle := d\<rparr>))"

definition send_ptp_message :: "string \<Rightarrow> int \<Rightarrow> camera \<Rightarrow> int \<times> camera" where
  "send_ptp_message bytestr timeout s = bulk_write bytestr timeout s"

definition recv_ptp_message :: "int \<Rightarrow> camera \<Rightarrow> (error + string) \<times> camera" where
  "recv_ptp_message timeout s =
     (case bulk_read 512 timeout s of
        (Inl e, s1) \<Rightarrow> (Inl e, s1)
      | (Inr buf, s1) \<Rightarrow>
          (case unpack_I buf of
             Inl e \<Rightarrow> (Inl e, s1)
           | Inr msg_len \<Rightarrow>
               let bytes_left = msg_len - 512 in
               if bytes_left > 0 then
                 (case bulk_read bytes_left timeout s1 of
                    (Inl e, s2) \<Rightarrow> (Inl e, s2)
                  | (Inr rest, s2) \<Rightarrow> (Inr (buf @ rest), s2))
               else (Inr buf, s1)))"

definition new_ptp_command ::
  "ptp_values \<Rightarrow> int \<Rightarrow> int list \<Rightarrow> camera \<Rightarrow> param_container \<times> camera" where
  "new_ptp_command V op_code ps s =
     (\<lparr> ptype = CONTAINER_COMMAND V, pcode = op_code,
         ptransaction_id = transaction_id s, params = ps \<rparr>,
      s\<lparr>transaction_id := transaction_id s + 1\<rparr>)"

text \<open>
  \<open>ptp_transaction\<close> is embedded in three parts, in the order of its body, so that
  the camera between two parts has a name: building and sending the request
  (lines 131 to 148), the first receive (lines 150 to 165) and the receive of the
  response when none has been captured (lines 167 to 181). A fresh \<open>DataContainer()\<close>
  has the Data kind.
\<close>

definition ptp_send_request ::
  "ptp_values \<Rightarrow> int \<Rightarrow> int list \<Rightarrow> string option \<Rightarrow> int \<Rightarrow> camera \<Rightarrow> (error + unit) \<times> camera" where
  "ptp_send_request V command ps tx_data timeout s =
     (case new_ptp_command V command ps s of (ptp_request, s1) \<Rightarrow>
        let ptp_request_data =
              (case tx_data of
                 None \<Rightarrow> None
               | Some tx \<Rightarrow>
                   Some \<lparr> dtype = CONTAINER_DATA V, dcode = pcode ptp_request,
                          dtransaction_id = ptransaction_id ptp_request, data = tx \<rparr>)
        in
        (case pack_param_container ptp_request of
           Inl e \<Rightarrow> (Inl e, s1)
         | Inr request_bytes \<Rightarrow>
             (case send_ptp_message request_bytes timeout s1 of (bytes_xfrered, s2) \<Rightarrow>
                (case ptp_request_data of
                   None \<Rightarrow> (Inr (), s2)
                 | Some request_data \<Rightarrow>
                     (case pack_data_container request_data of
                        Inl e \<Rightarrow> (Inl e, s2)
                      | Inr data_bytes \<Rightarrow>
                          (case send_ptp_message data_bytes timeout s2 of
                             (bytes_xfered, s3) \<Rightarrow> (Inr (), s3)))))))"

definition ptp_first_receive ::
  "ptp_values \<Rightarrow> bool \<Rightarrow> int \<Rightarrow> camera \<Rightarrow>
     (error + (param_container option \<times> inbound option)) \<times> camera" where
  \<comment> \<open>the pair is \<open>(recvd_response, recvd_data)\<close> after line 165\<close>
  "ptp_first_receive V receiving timeout s =
     (if receiving then
        (case recv_ptp_message timeout s of
           (Inl e, s1) \<Rightarrow> (Inl e, s1)
         | (Inr buf, s1) \<Rightarrow>
             (case unpack_IH buf of
                Inl e \<Rightarrow> (Inl e, s1)
              | Inr (msg_len, type_) \<Rightarrow>
                  if type_ = CONTAINER_DATA V then
                    (case DataContainer buf of
                       Inl e \<Rightarrow> (Inl e, s1)
                     | Inr d \<Rightarrow> (Inr (None, Some (DataC d)), s1))
                  else if type_ = CONTAINER_RESPONSE V then
                    (case ParamContainer buf of
                       Inl e \<Rightarrow> (Inl e, s1)
                     | Inr r \<Rightarrow> (Inr (Some r, None), s1))
                  else if type_ \<in> set [CONTAINER_COMMAND V, CONTAINER_EVENT V] then
                    (case ParamContainer buf of
                       Inl e \<Rightarrow> (Inl e, s1)
                     | Inr p \<Rightarrow> (Inr (None, Some (ParamC p)), s1))
                  else (Inl (UnknownContainerType type_), s1)))
      else (Inr (None, None), s))"

definition ptp_receive_response ::
  "ptp_values \<Rightarrow> param_container option \<Rightarrow> inbound option \<Rightarrow> int \<Rightarrow> camera \<Rightarrow>
     (error + (param_container \<times> inbound option)) \<times> camera" where
  "ptp_receive_response V recvd_response recvd_data timeout s =
     (case recvd_response of
        Some r \<Rightarrow> (Inr (r, recvd_data), s)
      | None \<Rightarrow>
          (case recv_ptp_message timeout s of
             (Inl e, s1) \<Rightarrow> (Inl e, s1)
           | (Inr buf, s1) \<Rightarrow>
               (case unpack_IH buf of
                  Inl e \<Rightarrow> (Inl e, s1)
                | Inr (msg_len, type_) \<Rightarrow>
                    if type_ = CONTAINER_RESPONSE V then
                      (case ParamContainer buf of
                         Inl e \<Rightarrow> (Inl e, s1)
                       | Inr r \<Rightarrow> (Inr (r, recvd_data), s1))
                    else (Inl (ExpectedResponseContainer type_), s1))))"

definition ptp_transaction ::
  "ptp_values \<Rightarrow> int \<Rightarrow> int list \<Rightarrow> string option \<Rightarrow> bool \<Rightarrow> int \<Rightarrow> camera \<Rightarrow>
     (error + (param_container \<times> inbound option)) \<times> camera" where
  "ptp_transaction V command ps tx_data receiving timeout s =
     (case ptp_send_request V command ps tx_data timeout s of
        (Inl e, s1) \<Rightarrow> (Inl e, s1)
      | (Inr u, s1) \<Rightarrow>
          (case ptp_first_receive V receiving timeout s1 of
             (Inl e, s2) \<Rightarrow> (Inl e, s2)
           | (Inr (recvd_response, recvd_data), s2) \<Rightarrow>
               ptp_receive_response V recvd_response recvd_data timeout s2))"

definition check_event ::
  "ptp_values \<Rightarrow> int \<Rightarrow> int \<Rightarrow> camera \<Rightarrow> (error + param_container) \<times> camera" where
  "check_event V sz timeout s =
     (case handle_read EP_INTR sz timeout (handle s) of
        (Inl e, d) \<Rightarrow> (Inl e, s\<lparr>handle := d\<rparr>)
      | (Inr buf, d) \<Rightarrow>
          (case ParamContainer buf of
             Inl e \<Rightarrow> (Inl e, s\<lparr>handle := d\<rparr>)
           | Inr p \<Rightarrow>
               if ptype p \<noteq> CONTAINER_EVENT V
               then (Inl (NonEventContainer (ptype p)), s\<lparr>handle := d\<rparr>)
               else (Inr p, s\<lparr>handle := d\<rparr>)))"

subsection \<open>\<open>PTPCamera\<close>\<close>

definition check_response :: "ptp_values \<Rightarrow> param_container \<Rightarrow> error + bool" where
  "check_response V response =
     (if pcode response \<noteq> RESPONSE_OK V then Inl (ResponseNotOK (pcode response))
      else Inr True)"

definition open_session :: "ptp_values \<Rightarrow> camera \<Rightarrow> (error + bool) \<times> camera" where
  "open_session V s =
     (case ptp_transaction V (OPCODE_OPEN_SESSION V) [session_id s] None True 0 s of
        (Inl e, s1) \<Rightarrow> (Inl e, s1)
      | (Inr (response, recvd), s1) \<Rightarrow>
          if pcode response \<noteq> RESPONSE_OK V
             \<and> pcode response \<noteq> RESPONSE_SESSION_ALREADY_OPENED V
          then (Inl (CouldNotOpenSession (pcode response)), s1)
          else (Inr True, s1))"

definition initiate_capture ::
  "ptp_values \<Rightarrow> camera \<Rightarrow> (error + (param_container \<times> inbound option)) \<times> camera" where
  "initiate_capture V s =
     (case ptp_transaction V (OPCODE_INITIATE_CAPTURE V) [0, 0] None True 0 s of
        (Inl e, s1) \<Rightarrow> (Inl e, s1)
      | (Inr (response, recvd), s1) \<Rightarrow>
          (case check_response V response of
             Inl e \<Rightarrow> (Inl e, s1)
           | Inr ok \<Rightarrow> (Inr (response, recvd), s1)))"

text \<open>
  The loop \<open>for event in [event1, event2]\<close> of \<open>capture\<close>; the pair is
  \<open>(obj_added_event, capture_complete_event)\<close>.
\<close>

fun classify_events ::
  "ptp_values \<Rightarrow> param_container list \<Rightarrow> param_container option \<times> param_container option \<Rightarrow>
     param_container option \<times> param_container option" where
  "classify_events V [] found = found"
| "classify_events V (event # events) (obj_added_event, capture_complete_event) =
     (if pcode event = EVENT_OBJECT_ADDED V
      then classify_events V events (Some event, capture_complete_event)
      else if pcode event = EVENT_CAPTURE_COMPLETE V
      then classify_events V events (obj_added_event, Some event)
      else classify_events V events (obj_added_event, capture_complete_event))"

definition capture :: "ptp_values \<Rightarrow> camera \<Rightarrow> (error + int) \<times> camera" where
  "capture V s =
     (case open_session V s of
        (Inl e, s1) \<Rightarrow> (Inl e, s1)
      | (Inr opened, s1) \<Rightarrow>
     (case initiate_capture V s1 of
        (Inl e, s2) \<Rightarrow> (Inl e, s2)
      | (Inr (response, recvd), s2) \<Rightarrow>
     (case check_response V response of
        Inl e \<Rightarrow> (Inl e, s2)
      | Inr ok \<Rightarrow>
     (case check_event V 512 5000 s2 of
        (Inl e, s3) \<Rightarrow> (Inl e, s3)
      | (Inr event1, s3) \<Rightarrow>
     (case check_event V 512 5000 s3 of
        (Inl e, s4) \<Rightarrow> (Inl e, s4)
      | (Inr event2, s4) \<Rightarrow>
     (case classify_events V [event1, event2] (None, None) of
        (None, capture_complete_event) \<Rightarrow> (Inl ObjectAddedNotReceived, s4)
      | (Some obj_added_event, None) \<Rightarrow> (Inl CaptureCompleteNotReceived, s4)
      | (Some obj_added_event, Some capture_complete_event) \<Rightarrow>
          (case params obj_added_event of
             [] \<Rightarrow> (Inl IndexError, s4)
           | object_handle # others \<Rightarrow> (Inr object_handle, s4))))))))"

subsection \<open>\<open>CHDKCamera\<close>\<close>

definition check_script_status :: "ptp_values \<Rightarrow> camera \<Rightarrow> (error + int) \<times> camera" where
  "check_script_status V s =
     (case ptp_transaction V (PTP_OC_CHDK V) [CHDK_ScriptStatus V] None False 0 s of
        (Inl e, s1) \<Rightarrow> (Inl e, s1)
      | (Inr (recvd_response, recvd), s1) \<Rightarrow>
          (case params recvd_response of
             [] \<Rightarrow> (Inl IndexError, s1)
           | status # others \<Rightarrow> (Inr status, s1)))"

definition read_script_message ::
  "ptp_values \<Rightarrow> camera \<Rightarrow> (error + (param_container \<times> inbound option)) \<times> camera" where
  "read_script_message V s =
     ptp_transaction V (PTP_OC_CHDK V) [CHDK_ReadScriptMsg V, CHDK_LUA V] None True 0 s"

definition endswith_NUL :: "string \<Rightarrow> bool" where
  \<comment> \<open>\<open>s.endswith('\0')\<close>\<close>
  "endswith_NUL str = (str \<noteq> [] \<and> last str = CHR 0x00)"

text \<open>
  \<open>path.basename\<close> (posixpath) starts with \<open>p.rfind('/')\<close>; on \<open>None\<close> that attribute
  lookup raises. On a string it returns what follows the last slash.
\<close>

definition path_basename :: "string option \<Rightarrow> error + string" where
  "path_basename p =
     (case p of
        None \<Rightarrow> Inl (AttributeError ''rfind'')
      | Some str \<Rightarrow> Inr (rev (takeWhile (\<lambda>c. c \<noteq> CHR ''/'') (rev str))))"

definition struct_pack_I_chars :: "nat \<Rightarrow> int \<Rightarrow> string \<Rightarrow> error + string" where
  \<comment> \<open>\<open>struct.pack('<I%dc' % n, v, str)\<close>: the format \<open>nc\<close> takes \<open>n\<close> arguments of one
      character each, and one argument is given for them\<close>
  "struct_pack_I_chars n v str =
     (if n = 1 \<and> length str = 1
      then (case pack_I v of Inl e \<Rightarrow> Inl e | Inr b \<Rightarrow> Inr (b @ str))
      else Inl StructError)"

definition struct_pack_B_star :: "string \<Rightarrow> error + string" where
  \<comment> \<open>\<open>struct.pack('<%dB' % len(contents), *contents)\<close>: every argument is a string of one
      character, which \<open>B\<close> does not convert to an integer\<close>
  "struct_pack_B_star contents = (if contents = [] then Inr [] else Inl StructError)"

text \<open>
  \<open>fs\<close> is the file system that \<open>open(local_filename, 'rb')\<close> reads: the contents of
  every file that exists.
\<close>

definition pack_file_for_upload ::
  "(string \<rightharpoonup> string) \<Rightarrow> string \<Rightarrow> string option \<Rightarrow> error + string" where
  "pack_file_for_upload fs local_filename remote_filename =
     (case (case remote_filename of
              None \<Rightarrow> path_basename remote_filename
            | Some given \<Rightarrow> Inr given) of
        Inl e \<Rightarrow> Inl e
      | Inr remote1 \<Rightarrow>
          let remote2 = (if \<not> endswith_NUL remote1 then remote1 @ [CHR 0x00] else remote1);
              filename_len = length remote2
          in
          (case struct_pack_I_chars filename_len (int filename_len) remote2 of
             Inl e \<Rightarrow> Inl e
           | Inr filebuf \<Rightarrow>
               (case fs local_filename of
                  None \<Rightarrow> Inl (NoSuchFile local_filename)
                | Some contents \<Rightarrow>
                    (case struct_pack_B_star contents of
                       Inl e \<Rightarrow> Inl e
                     | Inr packed \<Rightarrow> Inr (filebuf @ packed)))))"

text \<open>
  After the transaction \<open>upload_file\<close> evaluates \<open>ret_code != CHDKResponses.OK\<close>;
  \<open>ret_code\<close> is bound neither in the method nor in the module.
\<close>

definition upload_file ::
  "ptp_values \<Rightarrow> (string \<rightharpoonup> string) \<Rightarrow> string \<Rightarrow> string option \<Rightarrow> int \<Rightarrow> camera \<Rightarrow>
     (error + unit) \<times> camera" where
  "upload_file V fs local_filename remote_filename timeout s =
     (case pack_file_for_upload fs local_filename remote_filename of
        Inl e \<Rightarrow> (Inl e, s)
      | Inr filestr \<Rightarrow>
          (case ptp_transaction V (PTP_OC_CHDK V) [CHDK_UploadFile V] (Some filestr) False
                  timeout s of
             (Inl e, s1) \<Rightarrow> (Inl e, s1)
           | (Inr (dlfile_response, dlfile_data), s1) \<Rightarrow> (Inl (NameError ''ret_code''), s1)))"

text \<open>
  The status check that \<open>download_file\<close> makes twice, both times on
  \<open>tempdata_response\<close> (lines 441 to 444 and 450 to 453). The method ends with
  \<open>dlfile_data.data\<close>: the attribute of a \<open>DataContainer\<close>, which \<open>None\<close> and a
  parameter container do not have.
\<close>

definition check_tempdata_response :: "ptp_values \<Rightarrow> param_container \<Rightarrow> error + unit" where
  "check_tempdata_response V tempdata_response =
     (case params tempdata_response of
        [] \<Rightarrow> Inl IndexError
      | ret_code # others \<Rightarrow>
          if ret_code \<noteq> CHDK_OK V then
            (case CHDK_message V ret_code of
               None \<Rightarrow> Inl (KeyError ret_code)
             | Some message \<Rightarrow> Inl (PTPError ret_code (TableMessage message)))
          else Inr ())"

definition download_file ::
  "ptp_values \<Rightarrow> string \<Rightarrow> int \<Rightarrow> camera \<Rightarrow> (error + string) \<times> camera" where
  "download_file V filename timeout s =
     (let filename1 = (if \<not> endswith_NUL filename then filename @ [CHR 0x00] else filename) in
      (case ptp_transaction V (PTP_OC_CHDK V) [CHDK_TempData V, 0] (Some filename1) False
              timeout s of
         (Inl e, s1) \<Rightarrow> (Inl e, s1)
       | (Inr (tempdata_response, recvd), s1) \<Rightarrow>
      (case check_tempdata_response V tempdata_response of
         Inl e \<Rightarrow> (Inl e, s1)
       | Inr ok \<Rightarrow>
      (case ptp_transaction V (PTP_OC_CHDK V) [CHDK_DownloadFile V] None True timeout s1 of
         (Inl e, s2) \<Rightarrow> (Inl e, s2)
       | (Inr (dlfile_response, dlfile_data), s2) \<Rightarrow>
      (case check_tempdata_response V tempdata_response of
         Inl e \<Rightarrow> (Inl e, s2)
       | Inr ok \<Rightarrow>
      (case ptp_transaction V (PTP_OC_CHDK V) [CHDK_TempData V, TEMPDATA_CLEAR V] None False
              timeout s2 of
         (Inl e, s3) \<Rightarrow> (Inl e, s3)
       | (Inr (clear_response, recvd), s3) \<Rightarrow>
           (case dlfile_data of
              None \<Rightarrow> (Inl (AttributeError ''data''), s3)
            | Some (ParamC p) \<Rightarrow> (Inl (AttributeError ''data''), s3)
            | Some (DataC d) \<Rightarrow> (Inr (data d), s3))))))))"

definition time_sleep :: "real \<Rightarrow> camera \<Rightarrow> camera" where
  "time_sleep seconds s = s\<lparr>clock := clock s + seconds\<rparr>"

text \<open>
  The body of \<open>while True\<close> in \<open>_wait_for_script_return\<close>: \<open>timeout\<close> and \<open>t_start\<close> are
  fixed, \<open>msg_count\<close> and \<open>msgs\<close> are the loop's variables. \<open>time.time()\<close> reads
  \<open>clock\<close>. That the loop ends on every scripted device is proved with the
  properties below.
\<close>

function wait_for_script_loop::
  "ptp_values \<Rightarrow> real \<Rightarrow> real \<Rightarrow> int \<Rightarrow> (param_container \<times> inbound option) list \<Rightarrow> camera \<Rightarrow>
     (error + (param_container \<times> inbound option) list) \<times> camera" where
  "wait_for_script_loop V timeout t_start msg_count msgs s =
     (case check_script_status V s of
        (Inl e, s1) \<Rightarrow> (Inl e, s1)
      | (Inr STATUS, s1) \<Rightarrow>
          if STATUS AND STATUS_RUN V \<noteq> 0 then
            (let s2 = time_sleep (50 / 1000) s1 in
             if timeout > 0 \<and> timeout > clock s2 - t_start
             then (Inl (PTPError (TRANSACTION_CANCELLED V) TimeoutWaitingForScript), s2)
             else wait_for_script_loop V timeout t_start msg_count msgs s2)
          else if STATUS AND STATUS_MSG V \<noteq> 0 then
            (case read_script_message V s1 of
               (Inl e, s2) \<Rightarrow> (Inl e, s2)
             | (Inr (msg, msg_buf), s2) \<Rightarrow>
                 wait_for_script_loop V timeout t_start (msg_count + 1)
                   (msgs @ [(msg, msg_buf)]) s2)
          else if STATUS = STATUS_NONE V then (Inr msgs, s1)
          else (Inl (PTPError (UNDEFINED V) (InvalidScriptStatus STATUS)), s1))"
  by pat_completeness auto

definition wait_for_script_return ::
  "ptp_values \<Rightarrow> real \<Rightarrow> camera \<Rightarrow>
     (error + (param_container \<times> inbound option) list) \<times> camera" where
  "wait_for_script_return V timeout s = wait_for_script_loop V timeout (clock s) 1 [] s"

subsection \<open>Concrete devices\<close>

text \<open>
  A camera that has just been constructed and opened, on a device that will deliver
  the given bulk-in and interrupt transfers; and the bytes of a container on the wire.
\<close>

definition fresh_camera :: "string list \<Rightarrow> string list \<Rightarrow> camera" where
  "fresh_camera bulk intr =
     \<lparr> transaction_id = 0, session_id = 1,
       handle = \<lparr> bulk_in = bulk, intr_in = intr, calls = [] \<rparr>, clock = 0 \<rparr>"

definition wire_params :: "int \<Rightarrow> int \<Rightarrow> int \<Rightarrow> int list \<Rightarrow> string" where
  "wire_params kind code tid ps =
     (case pack_param_container
             \<lparr> ptype = kind, pcode = code, ptransaction_id = tid, params = ps \<rparr> of
        Inl e \<Rightarrow> []
      | Inr b \<Rightarrow> b)"

definition wire_data :: "int \<Rightarrow> int \<Rightarrow> string \<Rightarrow> string" where
  "wire_data code tid payload =
     (case pack_data_container
             \<lparr> dtype = 2, dcode = code, dtransaction_id = tid, data = payload \<rparr> of
        Inl e \<Rightarrow> []
      | Inr b \<Rightarrow> b)"

subsection \<open>Observations\<close>

text \<open>
  \<open>unread\<close> measures what the device has still to deliver on the bulk-in endpoint.
  \<open>transport_error\<close> holds of the errors that the framing and the device raise.
\<close>

definition unread :: "camera \<Rightarrow> nat" where
  "unread s = sum_list (map (\<lambda>x. Suc (length x)) (bulk_in (handle s)))"

definition transport_error :: "error \<Rightarrow> bool" where
  "transport_error e =
     (case e of
        USBError \<Rightarrow> True
      | StructError \<Rightarrow> True
      | UnknownContainerType k \<Rightarrow> True
      | ExpectedResponseContainer k \<Rightarrow> True
      | _ \<Rightarrow> False)"

text \<open>
  A caller's sequence of \<open>ptp_transaction\<close> calls on one camera, each given by its
  arguments \<open>(command, params, tx_data, receiving, timeout)\<close>. A call runs on the
  camera that the call before it left, whether that call returned or raised.
  \<open>issued_commands\<close> lists the Command container that each call builds, and
  \<open>written\<close> the byte strings that were written to the device, in order.
\<close>

type_synonym transact_call = "int \<times> int list \<times> string option \<times> bool \<times> int"

fun run_transactions :: "ptp_values \<Rightarrow> transact_call list \<Rightarrow> camera \<Rightarrow> camera" where
  "run_transactions V [] s = s"
| "run_transactions V ((command, ps, tx_data, receiving, timeout) # rest) s =
     run_transactions V rest (snd (ptp_transaction V command ps tx_data receiving timeout s))"

fun issued_commands :: "ptp_values \<Rightarrow> transact_call list \<Rightarrow> camera \<Rightarrow> param_container list" where
  "issued_commands V [] s = []"
| "issued_commands V ((command, ps, tx_data, receiving, timeout) # rest) s =
     fst (new_ptp_command V command ps s)
     # issued_commands V rest (snd (ptp_transaction V command ps tx_data receiving timeout s))"

fun written :: "usb_call list \<Rightarrow> string list" where
  "written [] = []"
| "written (UsbWrite ep bytestr timeout # cs) = bytestr # written cs"
| "written (UsbRead ep sz timeout # cs) = written cs"

section \<open>Properties\<close>

lemmas codec_defs =
  pack_H_def pack_I_def unpack_I_def unpack_IH_def pack_header_def
  pack_param_container_def pack_data_container_def ParamContainer_def DataContainer_def
  wire_params_def wire_data_def char_of_def

lemmas device_defs =
  pending_def set_pending_def handle_write_def handle_read_def bulk_write_def bulk_read_def
  send_ptp_message_def recv_ptp_message_def fresh_camera_def

lemmas transaction_defs =
  new_ptp_command_def ptp_send_request_def ptp_first_receive_def ptp_receive_response_def
  ptp_transaction_def

subsection \<open>Termination of the script-wait loop\<close>

text \<open>
  Every poll of \<open>_wait_for_script_return\<close> is a transaction, and a transaction that
  returns has read from the bulk-in endpoint. So \<open>unread\<close> bounds the number of
  polls, and the loop is a total function on every scripted device: on a device
  that has nothing more to deliver the next poll raises.
\<close>

lemma bulk_read_unread_le: "unread (snd (bulk_read sz timeout s)) \<le> unread s"
  by (auto simp: bulk_read_def handle_read_def pending_def set_pending_def unread_def Let_def
      split: list.splits)

lemma bulk_read_unread_less:
  "bulk_read sz timeout s = (Inr buf, s') \<Longrightarrow> 0 < sz \<Longrightarrow> unread s' < unread s"
  by (auto simp: bulk_read_def handle_read_def pending_def set_pending_def unread_def Let_def
      split: list.splits if_splits)

lemma recv_unread_le: "unread (snd (recv_ptp_message timeout s)) \<le> unread s"
proof -
  have a: "unread (snd (bulk_read 512 timeout s)) \<le> unread s" by (rule bulk_read_unread_le)
  show ?thesis
    using a bulk_read_unread_le[of _ timeout "snd (bulk_read 512 timeout s)"]
    apply (auto simp: recv_ptp_message_def Let_def split: prod.splits sum.splits)
    apply (metis le_trans snd_conv)
    apply (metis le_trans snd_conv)
    done
qed

lemma recv_unread_less:
  "recv_ptp_message timeout s = (Inr buf, s') \<Longrightarrow> unread s' < unread s"
  apply (auto simp: recv_ptp_message_def Let_def split: prod.splits sum.splits if_splits
      dest!: bulk_read_unread_less)
  done

lemma send_unread: "unread (snd (send_ptp_message b timeout s)) = unread s"
  by (simp add: send_ptp_message_def bulk_write_def handle_write_def unread_def)

lemma ptp_send_request_unread:
  "unread (snd (ptp_send_request V c ps tx timeout s)) = unread s"
  apply (auto simp: ptp_send_request_def new_ptp_command_def Let_def send_ptp_message_def bulk_write_def handle_write_def unread_def
      split: prod.splits sum.splits option.splits)
  done

lemma ptp_first_receive_unread_le:
  "unread (snd (ptp_first_receive V receiving timeout s)) \<le> unread s"
  using recv_unread_le[of timeout s]
  by (auto simp: ptp_first_receive_def split: prod.splits sum.splits)

lemma ptp_first_receive_unread_less:
  "ptp_first_receive V True timeout s = (Inr r, s') \<Longrightarrow> unread s' < unread s"
  by (auto simp: ptp_first_receive_def split: prod.splits sum.splits if_splits
      dest: recv_unread_less)

lemma ptp_receive_response_unread_le:
  "unread (snd (ptp_receive_response V rr rd timeout s)) \<le> unread s"
  using recv_unread_le[of timeout s]
  by (auto simp: ptp_receive_response_def split: prod.splits sum.splits option.splits)

lemma ptp_receive_response_unread_less:
  "ptp_receive_response V None rd timeout s = (Inr r, s') \<Longrightarrow> unread s' < unread s"
  by (auto simp: ptp_receive_response_def split: prod.splits sum.splits if_splits
      dest: recv_unread_less)

lemma ptp_transaction_unread_less:
  assumes "ptp_transaction V c ps tx receiving timeout s = (Inr r, s')"
  shows "unread s' < unread s"
proof -
  obtain u s1 where 1: "ptp_send_request V c ps tx timeout s = (Inr u, s1)"
    using assms by (auto simp: ptp_transaction_def split: prod.splits sum.splits)
  obtain rr rd s2 where 2: "ptp_first_receive V receiving timeout s1 = (Inr (rr, rd), s2)"
    using assms 1 by (auto simp: ptp_transaction_def split: prod.splits sum.splits)
  have 3: "ptp_receive_response V rr rd timeout s2 = (Inr r, s')"
    using assms 1 2 by (simp add: ptp_transaction_def)
  have e1: "unread s1 = unread s" using ptp_send_request_unread[of V c ps tx timeout s] 1 by simp
  have e2: "unread s2 \<le> unread s1" using ptp_first_receive_unread_le[of V receiving timeout s1] 2 by simp
  have e3: "unread s' \<le> unread s2" using ptp_receive_response_unread_le[of V rr rd timeout s2] 3 by simp
  show ?thesis
  proof (cases rr)
    case None
    then have "unread s' < unread s2" using 3 ptp_receive_response_unread_less by blast
    then show ?thesis using e1 e2 by linarith
  next
    case (Some a)
    then have "receiving" using 2 by (auto simp: ptp_first_receive_def split: if_splits)
    then have "unread s2 < unread s1"
      using 2 ptp_first_receive_unread_less[of V timeout s1 "(rr, rd)" s2] by simp
    then show ?thesis using e1 e3 by linarith
  qed
qed

lemma check_script_status_unread_less:
  "check_script_status V s = (Inr st, s') \<Longrightarrow> unread s' < unread s"
  by (auto simp: check_script_status_def split: prod.splits sum.splits list.splits
      dest: ptp_transaction_unread_less)

lemma read_script_message_unread_less:
  "read_script_message V s = (Inr m, s') \<Longrightarrow> unread s' < unread s"
  by (auto simp: read_script_message_def dest: ptp_transaction_unread_less)

lemma time_sleep_unread: "unread (time_sleep d s) = unread s"
  by (simp add: time_sleep_def unread_def)

termination wait_for_script_loop
  apply (relation "measure (\<lambda>(V, timeout, t_start, msg_count, msgs, s). unread s)")
   apply simp
  apply (auto simp: time_sleep_unread
      dest!: check_script_status_unread_less[OF sym] read_script_message_unread_less[OF sym])
  done

declare wait_for_script_loop.simps [simp del]

lemmas chdk_defs =
  check_script_status_def read_script_message_def download_file_def
  check_tempdata_response_def endswith_NUL_def time_sleep_def wait_for_script_return_def
  wait_for_script_loop.simps

lemmas upload_defs =
  pack_file_for_upload_def path_basename_def struct_pack_I_chars_def struct_pack_B_star_def
  upload_file_def endswith_NUL_def

lemmas run_defs = transaction_defs device_defs codec_defs std_values_def Let_def

lemmas session_defs =
  check_event_def check_response_def open_session_def initiate_capture_def

subsection \<open>What a transaction can raise\<close>

lemma pack_H_error: "pack_H v = Inl e \<Longrightarrow> e = StructError"
  by (auto simp: pack_H_def split: if_splits)

lemma pack_I_error: "pack_I v = Inl e \<Longrightarrow> e = StructError"
  by (auto simp: pack_I_def split: if_splits)

lemma pack_header_error: "pack_header l k c t = Inl e \<Longrightarrow> e = StructError"
  by (auto simp: pack_header_def split: sum.splits dest: pack_H_error pack_I_error)

lemma pack_params_error: "pack_params ps = Inl e \<Longrightarrow> e = StructError"
  by (induction ps) (auto split: sum.splits dest: pack_I_error)

lemma pack_param_container_error: "pack_param_container c = Inl e \<Longrightarrow> e = StructError"
  by (auto simp: pack_param_container_def split: sum.splits
      dest: pack_params_error pack_header_error)

lemma pack_data_container_error: "pack_data_container c = Inl e \<Longrightarrow> e = StructError"
  by (auto simp: pack_data_container_def split: sum.splits dest: pack_header_error)

lemma unpack_params_error: "unpack_params b = Inl e \<Longrightarrow> e = StructError"
  by (induction b rule: unpack_params.induct) (auto split: sum.splits)

lemma ParamContainer_error: "ParamContainer b = Inl e \<Longrightarrow> e = StructError"
  by (auto simp: ParamContainer_def split: sum.splits if_splits dest: unpack_params_error)

lemma DataContainer_error: "DataContainer b = Inl e \<Longrightarrow> e = StructError"
  by (auto simp: DataContainer_def split: sum.splits if_splits)

lemma unpack_IH_error: "unpack_IH b = Inl e \<Longrightarrow> e = StructError"
  by (auto simp: unpack_IH_def split: if_splits)

lemma unpack_I_error: "unpack_I b = Inl e \<Longrightarrow> e = StructError"
  by (auto simp: unpack_I_def split: if_splits)

lemma bulk_read_error: "bulk_read sz t s = (Inl e, s') \<Longrightarrow> e = USBError"
  by (auto simp: bulk_read_def handle_read_def Let_def split: list.splits if_splits)

lemma recv_ptp_message_error: "recv_ptp_message t s = (Inl e, s') \<Longrightarrow> transport_error e"
  by (auto simp: recv_ptp_message_def Let_def transport_error_def
      split: prod.splits sum.splits if_splits dest!: bulk_read_error unpack_I_error)

lemma ptp_send_request_error:
  "ptp_send_request V c ps tx t s = (Inl e, s') \<Longrightarrow> transport_error e"
  by (auto simp: ptp_send_request_def Let_def transport_error_def
      split: prod.splits sum.splits option.splits
      dest!: pack_param_container_error pack_data_container_error)

lemma ptp_first_receive_error:
  "ptp_first_receive V r t s = (Inl e, s') \<Longrightarrow> transport_error e"
  apply (simp add: ptp_first_receive_def split: if_splits prod.splits sum.splits)
  apply (auto simp: transport_error_def
      dest!: recv_ptp_message_error unpack_IH_error ParamContainer_error DataContainer_error)
  done

lemma ptp_receive_response_error:
  "ptp_receive_response V rr rd t s = (Inl e, s') \<Longrightarrow> transport_error e"
  apply (simp add: ptp_receive_response_def
      split: if_splits prod.splits sum.splits option.splits)
  apply (auto simp: transport_error_def
      dest!: recv_ptp_message_error unpack_IH_error ParamContainer_error)
  done

lemma ptp_transaction_error:
  "ptp_transaction V c ps tx r t s = (Inl e, s') \<Longrightarrow> transport_error e"
  by (auto simp: ptp_transaction_def split: prod.splits sum.splits
      dest: ptp_send_request_error ptp_first_receive_error ptp_receive_response_error)

subsection \<open>The receive phase of a transaction\<close>

text \<open>
  C1. A transaction with \<open>receiving\<close> true whose request has been sent classifies the
  first container it receives by the kind in its header. A Response is the final
  response: the call returns it with no inbound payload, on the camera as the first
  receive left it, so nothing more is received. A Data container, and likewise a
  Command or Event container, is the inbound payload; any other kind raises the
  TypeError of an unknown container type. After a payload exactly one more receive
  follows: a Response makes the call return it together with the payload, any
  other kind raises the TypeError of an expected response.
\<close>

theorem ptp_transaction_classifies_first_container:
  assumes kinds: "distinct [CONTAINER_COMMAND V, CONTAINER_DATA V, CONTAINER_RESPONSE V,
                            CONTAINER_EVENT V]"
    and sent: "ptp_send_request V command ps tx_data timeout s = (Inr u, s1)"
    and first: "recv_ptp_message timeout s1 = (Inr buf, s2)"
    and kind: "unpack_IH buf = Inr (msg_len, kind)"
  shows
    "(kind = CONTAINER_RESPONSE V \<longrightarrow>
        (\<forall>r. ParamContainer buf = Inr r \<longrightarrow>
           ptp_transaction V command ps tx_data True timeout s = (Inr (r, None), s2)))
     \<and> (kind = CONTAINER_DATA V \<longrightarrow>
        (\<forall>d. DataContainer buf = Inr d \<longrightarrow>
          (\<forall>buf2 s3 len2 kind2.
             recv_ptp_message timeout s2 = (Inr buf2, s3) \<and> unpack_IH buf2 = Inr (len2, kind2)
             \<longrightarrow>
               (kind2 = CONTAINER_RESPONSE V \<longrightarrow>
                  (\<forall>r. ParamContainer buf2 = Inr r \<longrightarrow>
                     ptp_transaction V command ps tx_data True timeout s
                       = (Inr (r, Some (DataC d)), s3)))
               \<and> (kind2 \<noteq> CONTAINER_RESPONSE V \<longrightarrow>
                    ptp_transaction V command ps tx_data True timeout s
                      = (Inl (ExpectedResponseContainer kind2), s3)))))
     \<and> (kind = CONTAINER_COMMAND V \<or> kind = CONTAINER_EVENT V \<longrightarrow>
        (\<forall>p. ParamContainer buf = Inr p \<longrightarrow>
          (\<forall>buf2 s3 len2 kind2.
             recv_ptp_message timeout s2 = (Inr buf2, s3) \<and> unpack_IH buf2 = Inr (len2, kind2)
             \<longrightarrow>
               (kind2 = CONTAINER_RESPONSE V \<longrightarrow>
                  (\<forall>r. ParamContainer buf2 = Inr r \<longrightarrow>
                     ptp_transaction V command ps tx_data True timeout s
                       = (Inr (r, Some (ParamC p)), s3)))
               \<and> (kind2 \<noteq> CONTAINER_RESPONSE V \<longrightarrow>
                    ptp_transaction V command ps tx_data True timeout s
                      = (Inl (ExpectedResponseContainer kind2), s3)))))
     \<and> (kind \<noteq> CONTAINER_DATA V \<and> kind \<noteq> CONTAINER_RESPONSE V
          \<and> kind \<noteq> CONTAINER_COMMAND V \<and> kind \<noteq> CONTAINER_EVENT V \<longrightarrow>
        ptp_transaction V command ps tx_data True timeout s
          = (Inl (UnknownContainerType kind), s2))"
proof -
  have tx: "ptp_transaction V command ps tx_data True timeout s =
      (case ptp_first_receive V True timeout s1 of
         (Inl e, s2) \<Rightarrow> (Inl e, s2)
       | (Inr (recvd_response, recvd_data), s2) \<Rightarrow>
           ptp_receive_response V recvd_response recvd_data timeout s2)"
    using sent by (simp add: ptp_transaction_def)
  have response: "ptp_transaction V command ps tx_data True timeout s = (Inr (r, None), s2)"
    if "kind = CONTAINER_RESPONSE V" "ParamContainer buf = Inr r" for r
    using that kinds first kind
    by (auto simp add: tx ptp_first_receive_def ptp_receive_response_def)
  have payload: "ptp_transaction V command ps tx_data True timeout s
                   = ptp_receive_response V None (Some (DataC d)) timeout s2"
    if "kind = CONTAINER_DATA V" "DataContainer buf = Inr d" for d
    using that kinds first kind by (simp add: tx ptp_first_receive_def)
  have echo: "ptp_transaction V command ps tx_data True timeout s
                   = ptp_receive_response V None (Some (ParamC p)) timeout s2"
    if "kind = CONTAINER_COMMAND V \<or> kind = CONTAINER_EVENT V" "ParamContainer buf = Inr p" for p
    using that kinds first kind by (auto simp add: tx ptp_first_receive_def)
  have unknown: "ptp_transaction V command ps tx_data True timeout s
          = (Inl (UnknownContainerType kind), s2)"
    if "kind \<noteq> CONTAINER_DATA V \<and> kind \<noteq> CONTAINER_RESPONSE V
          \<and> kind \<noteq> CONTAINER_COMMAND V \<and> kind \<noteq> CONTAINER_EVENT V"
    using that first kind by (simp add: tx ptp_first_receive_def)
  have backfill_ok: "ptp_receive_response V None recvd timeout s2 = (Inr (r, recvd), s3)"
    if "recv_ptp_message timeout s2 = (Inr buf2, s3)" "unpack_IH buf2 = Inr (len2, kind2)"
      "kind2 = CONTAINER_RESPONSE V" "ParamContainer buf2 = Inr r"
    for recvd buf2 s3 len2 kind2 r
    using that by (simp add: ptp_receive_response_def)
  have backfill_bad: "ptp_receive_response V None recvd timeout s2
                        = (Inl (ExpectedResponseContainer kind2), s3)"
    if "recv_ptp_message timeout s2 = (Inr buf2, s3)" "unpack_IH buf2 = Inr (len2, kind2)"
      "kind2 \<noteq> CONTAINER_RESPONSE V"
    for recvd buf2 s3 len2 kind2
    using that by (simp add: ptp_receive_response_def)
  show ?thesis
    using response payload echo unknown backfill_ok backfill_bad by (simp (no_asm_simp))
qed

text \<open>
  The five outcomes on concrete devices: a response at once (the transfer behind it
  stays pending), a Data container and its response, an Event container and its
  response, a container of kind 9, and two Data containers in a row.
\<close>

theorem ptp_transaction_classifies_first_container_witness:
  "ptp_transaction std_values 0x1001 [] None True 0
       (fresh_camera [wire_params 3 0x2001 0 [], wire_params 3 0x2001 1 []] [])
     = (Inr (\<lparr> ptype = 3, pcode = 0x2001, ptransaction_id = 0, params = [] \<rparr>, None),
        snd (recv_ptp_message 0 (snd (ptp_send_request std_values 0x1001 [] None 0
          (fresh_camera [wire_params 3 0x2001 0 [], wire_params 3 0x2001 1 []] [])))))
   \<and> bulk_in (handle (snd (recv_ptp_message 0 (snd (ptp_send_request std_values 0x1001 []
          None 0 (fresh_camera [wire_params 3 0x2001 0 [], wire_params 3 0x2001 1 []] []))))))
     = [wire_params 3 0x2001 1 []]
   \<and> fst (ptp_transaction std_values 0x1001 [] None True 0
       (fresh_camera [wire_data 0x1001 0 ''info'', wire_params 3 0x2001 0 []] []))
     = Inr (\<lparr> ptype = 3, pcode = 0x2001, ptransaction_id = 0, params = [] \<rparr>,
            Some (DataC \<lparr> dtype = 2, dcode = 0x1001, dtransaction_id = 0, data = ''info'' \<rparr>))
   \<and> fst (ptp_transaction std_values 0x1001 [] None True 0
       (fresh_camera [wire_params 4 0x4002 0 [5], wire_params 3 0x2001 0 []] []))
     = Inr (\<lparr> ptype = 3, pcode = 0x2001, ptransaction_id = 0, params = [] \<rparr>,
            Some (ParamC \<lparr> ptype = 4, pcode = 0x4002, ptransaction_id = 0, params = [5] \<rparr>))
   \<and> fst (ptp_transaction std_values 0x1001 [] None True 0
       (fresh_camera [wire_params 9 0 0 []] []))
     = Inl (UnknownContainerType 9)
   \<and> fst (ptp_transaction std_values 0x1001 [] None True 0
       (fresh_camera [wire_data 0x1001 0 ''info'', wire_data 0x1001 0 ''more''] []))
     = Inl (ExpectedResponseContainer 2)"
proof -
  have kinds: "distinct [CONTAINER_COMMAND std_values, CONTAINER_DATA std_values,
                         CONTAINER_RESPONSE std_values, CONTAINER_EVENT std_values]"
    by (simp add: std_values_def)
  let ?ok = "\<lparr> ptype = 3, pcode = 0x2001, ptransaction_id = 0, params = [] \<rparr>"
  let ?info = "\<lparr> dtype = 2, dcode = 0x1001, dtransaction_id = 0, data = ''info'' \<rparr>"
  let ?event = "\<lparr> ptype = 4, pcode = 0x4002, ptransaction_id = 0, params = [5] \<rparr>"
  have is_response: "3 = CONTAINER_RESPONSE std_values"
    and response: "ParamContainer (wire_params 3 0x2001 0 []) = Inr ?ok"
    and response_kind: "unpack_IH (wire_params 3 0x2001 0 []) = Inr (12, 3)"
    and is_data: "2 = CONTAINER_DATA std_values"
    and not_response: "2 \<noteq> CONTAINER_RESPONSE std_values"
    and info: "DataContainer (wire_data 0x1001 0 ''info'') = Inr ?info"
    and info_kind: "unpack_IH (wire_data 0x1001 0 ''info'') = Inr (16, 2)"
    and more_kind: "unpack_IH (wire_data 0x1001 0 ''more'') = Inr (16, 2)"
    and is_event: "4 = CONTAINER_COMMAND std_values \<or> 4 = CONTAINER_EVENT std_values"
    and event: "ParamContainer (wire_params 4 0x4002 0 [5]) = Inr ?event"
    and event_kind: "unpack_IH (wire_params 4 0x4002 0 [5]) = Inr (16, 4)"
    and unknown_kind: "unpack_IH (wire_params 9 0 0 []) = Inr (12, 9)"
    and is_unknown: "9 \<noteq> CONTAINER_DATA std_values \<and> 9 \<noteq> CONTAINER_RESPONSE std_values
          \<and> 9 \<noteq> CONTAINER_COMMAND std_values \<and> 9 \<noteq> CONTAINER_EVENT std_values"
    by (simp_all add: codec_defs std_values_def)
  have a: "ptp_transaction std_values 0x1001 [] None True 0
             (fresh_camera [wire_params 3 0x2001 0 [], wire_params 3 0x2001 1 []] [])
           = (Inr (?ok, None),
              snd (recv_ptp_message 0 (snd (ptp_send_request std_values 0x1001 [] None 0
                (fresh_camera [wire_params 3 0x2001 0 [], wire_params 3 0x2001 1 []] [])))))"
  proof -
    let ?cam = "fresh_camera [wire_params 3 0x2001 0 [], wire_params 3 0x2001 1 []] []"
    let ?s1 = "snd (ptp_send_request std_values 0x1001 [] None 0 ?cam)"
    let ?s2 = "snd (recv_ptp_message 0 ?s1)"
    have sent: "ptp_send_request std_values 0x1001 [] None 0 ?cam = (Inr (), ?s1)"
      by (simp add: run_defs)
    have first: "recv_ptp_message 0 ?s1 = (Inr (wire_params 3 0x2001 0 []), ?s2)"
      by (simp add: run_defs)
    note T = ptp_transaction_classifies_first_container [OF kinds sent first response_kind]
    show ?thesis
      using T[THEN conjunct1, rule_format, OF is_response response] .
  qed
  have a': "bulk_in (handle (snd (recv_ptp_message 0 (snd (ptp_send_request std_values 0x1001 []
              None 0 (fresh_camera [wire_params 3 0x2001 0 [], wire_params 3 0x2001 1 []] []))))))
            = [wire_params 3 0x2001 1 []]"
    by (simp add: run_defs)
  have b: "fst (ptp_transaction std_values 0x1001 [] None True 0
             (fresh_camera [wire_data 0x1001 0 ''info'', wire_params 3 0x2001 0 []] []))
           = Inr (?ok, Some (DataC ?info))"
  proof -
    let ?cam = "fresh_camera [wire_data 0x1001 0 ''info'', wire_params 3 0x2001 0 []] []"
    let ?s1 = "snd (ptp_send_request std_values 0x1001 [] None 0 ?cam)"
    let ?s2 = "snd (recv_ptp_message 0 ?s1)"
    let ?s3 = "snd (recv_ptp_message 0 ?s2)"
    have sent: "ptp_send_request std_values 0x1001 [] None 0 ?cam = (Inr (), ?s1)"
      by (simp add: run_defs)
    have first: "recv_ptp_message 0 ?s1 = (Inr (wire_data 0x1001 0 ''info''), ?s2)"
      by (simp add: run_defs)
    have "recv_ptp_message 0 ?s2 = (Inr (wire_params 3 0x2001 0 []), ?s3)"
      by (simp add: run_defs)
    then have second: "recv_ptp_message 0 ?s2 = (Inr (wire_params 3 0x2001 0 []), ?s3)
                  \<and> unpack_IH (wire_params 3 0x2001 0 []) = Inr (12, 3)"
      using response_kind by (rule conjI)
    note T = ptp_transaction_classifies_first_container [OF kinds sent first info_kind]
    have "ptp_transaction std_values 0x1001 [] None True 0 ?cam
            = (Inr (?ok, Some (DataC ?info)), ?s3)"
      using T[THEN conjunct2, THEN conjunct1, rule_format, OF is_data info second,
              THEN conjunct1, rule_format, OF is_response response] .
    then show ?thesis by (simp only: fst_conv)
  qed
  have c: "fst (ptp_transaction std_values 0x1001 [] None True 0
             (fresh_camera [wire_params 4 0x4002 0 [5], wire_params 3 0x2001 0 []] []))
           = Inr (?ok, Some (ParamC ?event))"
  proof -
    let ?cam = "fresh_camera [wire_params 4 0x4002 0 [5], wire_params 3 0x2001 0 []] []"
    let ?s1 = "snd (ptp_send_request std_values 0x1001 [] None 0 ?cam)"
    let ?s2 = "snd (recv_ptp_message 0 ?s1)"
    let ?s3 = "snd (recv_ptp_message 0 ?s2)"
    have sent: "ptp_send_request std_values 0x1001 [] None 0 ?cam = (Inr (), ?s1)"
      by (simp add: run_defs)
    have first: "recv_ptp_message 0 ?s1 = (Inr (wire_params 4 0x4002 0 [5]), ?s2)"
      by (simp add: run_defs)
    have "recv_ptp_message 0 ?s2 = (Inr (wire_params 3 0x2001 0 []), ?s3)"
      by (simp add: run_defs)
    then have second: "recv_ptp_message 0 ?s2 = (Inr (wire_params 3 0x2001 0 []), ?s3)
                  \<and> unpack_IH (wire_params 3 0x2001 0 []) = Inr (12, 3)"
      using response_kind by (rule conjI)
    note T = ptp_transaction_classifies_first_container [OF kinds sent first event_kind]
    have "ptp_transaction std_values 0x1001 [] None True 0 ?cam
            = (Inr (?ok, Some (ParamC ?event)), ?s3)"
      using T[THEN conjunct2, THEN conjunct2, THEN conjunct1, rule_format,
              OF is_event event second, THEN conjunct1, rule_format, OF is_response response] .
    then show ?thesis by (simp only: fst_conv)
  qed
  have d: "fst (ptp_transaction std_values 0x1001 [] None True 0
             (fresh_camera [wire_params 9 0 0 []] []))
           = Inl (UnknownContainerType 9)"
  proof -
    let ?cam = "fresh_camera [wire_params 9 0 0 []] []"
    let ?s1 = "snd (ptp_send_request std_values 0x1001 [] None 0 ?cam)"
    let ?s2 = "snd (recv_ptp_message 0 ?s1)"
    have sent: "ptp_send_request std_values 0x1001 [] None 0 ?cam = (Inr (), ?s1)"
      by (simp add: run_defs)
    have first: "recv_ptp_message 0 ?s1 = (Inr (wire_params 9 0 0 []), ?s2)"
      by (simp add: run_defs)
    note T = ptp_transaction_classifies_first_container [OF kinds sent first unknown_kind]
    have "ptp_transaction std_values 0x1001 [] None True 0 ?cam
            = (Inl (UnknownContainerType 9), ?s2)"
      using T[THEN conjunct2, THEN conjunct2, THEN conjunct2, rule_format, OF is_unknown] .
    then show ?thesis by (simp only: fst_conv)
  qed
  have e: "fst (ptp_transaction std_values 0x1001 [] None True 0
             (fresh_camera [wire_data 0x1001 0 ''info'', wire_data 0x1001 0 ''more''] []))
           = Inl (ExpectedResponseContainer 2)"
  proof -
    let ?cam = "fresh_camera [wire_data 0x1001 0 ''info'', wire_data 0x1001 0 ''more''] []"
    let ?s1 = "snd (ptp_send_request std_values 0x1001 [] None 0 ?cam)"
    let ?s2 = "snd (recv_ptp_message 0 ?s1)"
    let ?s3 = "snd (recv_ptp_message 0 ?s2)"
    have sent: "ptp_send_request std_values 0x1001 [] None 0 ?cam = (Inr (), ?s1)"
      by (simp add: run_defs)
    have first: "recv_ptp_message 0 ?s1 = (Inr (wire_data 0x1001 0 ''info''), ?s2)"
      by (simp add: run_defs)
    have "recv_ptp_message 0 ?s2 = (Inr (wire_data 0x1001 0 ''more''), ?s3)"
      by (simp add: run_defs)
    then have second: "recv_ptp_message 0 ?s2 = (Inr (wire_data 0x1001 0 ''more''), ?s3)
                  \<and> unpack_IH (wire_data 0x1001 0 ''more'') = Inr (16, 2)"
      using more_kind by (rule conjI)
    note T = ptp_transaction_classifies_first_container [OF kinds sent first info_kind]
    have "ptp_transaction std_values 0x1001 [] None True 0 ?cam
            = (Inl (ExpectedResponseContainer 2), ?s3)"
      using T[THEN conjunct2, THEN conjunct1, rule_format, OF is_data info second,
              THEN conjunct2, rule_format, OF not_response] .
    then show ?thesis by (simp only: fst_conv)
  qed
  show ?thesis
    by (intro conjI) (rule a a' b c d e)+
qed

subsection \<open>Transaction ids\<close>

text \<open>The transaction id can be read back from the bytes of a packed container.\<close>

lemma le_uint4:
  assumes "0 \<le> v" "v < 4294967296"
  shows "le_uint [char_of v, char_of (v div 256), char_of (v div 65536), char_of (v div 16777216)] = v"
proof -
  have a: "v div 65536 = v div 256 div 256" by (simp add: div_mult2_eq[symmetric])
  have b: "v div 16777216 = v div 256 div 256 div 256" by (simp add: div_mult2_eq[symmetric])
  have c: "v div 256 div 256 div 256 < 256" using assms by simp
  have d: "0 \<le> v div 256 div 256 div 256" using assms by simp
  have e: "v div 256 div 256 div 256 mod 256 = v div 256 div 256 div 256" using c d by simp
  show ?thesis
    unfolding a b by (simp add: of_char_of e)
qed

lemma le_uint_pack_I: "pack_I v = Inr b \<Longrightarrow> le_uint b = v"
  using le_uint4 by (auto simp: pack_I_def split: if_splits)


lemma length_pack_I: "pack_I v = Inr b \<Longrightarrow> length b = 4"
  by (auto simp: pack_I_def split: if_splits)

lemma length_pack_H: "pack_H v = Inr b \<Longrightarrow> length b = 2"
  by (auto simp: pack_H_def split: if_splits)

lemma pack_header_tid:
  assumes "pack_header n k c t = Inr h"
  shows "le_uint (take 4 (drop 8 (h @ payload))) = t"
proof -
  obtain l kk cc tt where h: "h = l @ kk @ cc @ tt"
    and l: "pack_I (12 + n) = Inr l" and kk: "pack_H k = Inr kk"
    and cc: "pack_H c = Inr cc" and tt: "pack_I t = Inr tt"
    using assms by (auto simp: pack_header_def split: sum.splits)
  have "take 4 (drop 8 (h @ payload)) = tt"
    using h length_pack_I[OF l] length_pack_H[OF kk] length_pack_H[OF cc] length_pack_I[OF tt]
    by simp
  then show ?thesis using le_uint_pack_I[OF tt] by simp
qed

lemma pack_param_container_tid:
  "pack_param_container c = Inr b \<Longrightarrow> le_uint (take 4 (drop 8 b)) = ptransaction_id c"
  by (auto simp: pack_param_container_def split: sum.splits dest: pack_header_tid)

lemma pack_data_container_tid:
  "pack_data_container d = Inr b \<Longrightarrow> le_uint (take 4 (drop 8 b)) = dtransaction_id d"
  by (auto simp: pack_data_container_def split: sum.splits dest: pack_header_tid)

lemma written_append: "written (xs @ ys) = written xs @ written ys"
  by (induction xs rule: written.induct) auto

lemma bulk_read_counter: "transaction_id (snd (bulk_read sz t s)) = transaction_id s"
  by (simp add: bulk_read_def split: prod.splits)

lemma bulk_read_written:
  "written (calls (handle (snd (bulk_read sz t s)))) = written (calls (handle s))"
  by (auto simp: bulk_read_def handle_read_def pending_def set_pending_def Let_def written_append
      split: prod.splits list.splits endpoint.splits)

lemma recv_counter: "transaction_id (snd (recv_ptp_message t s)) = transaction_id s"
  by (auto simp: recv_ptp_message_def Let_def split: prod.splits sum.splits)
    (metis bulk_read_counter snd_conv)+

lemma recv_written:
  "written (calls (handle (snd (recv_ptp_message t s)))) = written (calls (handle s))"
  by (auto simp: recv_ptp_message_def Let_def split: prod.splits sum.splits)
    (metis bulk_read_written snd_conv)+


lemma send_counter: "transaction_id (snd (send_ptp_message b t s)) = transaction_id s"
  by (simp add: send_ptp_message_def bulk_write_def handle_write_def)

lemma send_written:
  "written (calls (handle (snd (send_ptp_message b t s)))) = written (calls (handle s)) @ [b]"
  by (simp add: send_ptp_message_def bulk_write_def handle_write_def written_append)

lemma ptp_first_receive_counter:
  "transaction_id (snd (ptp_first_receive V r t s)) = transaction_id s"
  using recv_counter[of t s]
  by (auto simp: ptp_first_receive_def split: prod.splits sum.splits)

lemma ptp_first_receive_written:
  "written (calls (handle (snd (ptp_first_receive V r t s)))) = written (calls (handle s))"
  using recv_written[of t s]
  by (auto simp: ptp_first_receive_def split: prod.splits sum.splits)

lemma ptp_receive_response_counter:
  "transaction_id (snd (ptp_receive_response V rr rd t s)) = transaction_id s"
  using recv_counter[of t s]
  by (auto simp: ptp_receive_response_def split: prod.splits sum.splits option.splits)

lemma ptp_receive_response_written:
  "written (calls (handle (snd (ptp_receive_response V rr rd t s)))) = written (calls (handle s))"
  using recv_written[of t s]
  by (auto simp: ptp_receive_response_def split: prod.splits sum.splits option.splits)

lemma ptp_send_request_counter:
  "transaction_id (snd (ptp_send_request V c ps tx t s)) = transaction_id s + 1"
  by (auto simp: ptp_send_request_def new_ptp_command_def Let_def send_ptp_message_def
      bulk_write_def handle_write_def split: prod.splits sum.splits option.splits)

lemma ptp_transaction_counter:
  "transaction_id (snd (ptp_transaction V c ps tx r t s)) = transaction_id s + 1"
proof -
  have "transaction_id (snd (ptp_transaction V c ps tx r t s))
          = transaction_id (snd (ptp_send_request V c ps tx t s))"
    apply (auto simp: ptp_transaction_def split: prod.splits sum.splits)
     apply (metis ptp_first_receive_counter snd_conv)
    apply (metis ptp_first_receive_counter ptp_receive_response_counter snd_conv)
    done
  then show ?thesis by (simp add: ptp_send_request_counter)
qed

lemma ptp_transaction_written_eq:
  "written (calls (handle (snd (ptp_transaction V c ps tx r t s))))
     = written (calls (handle (snd (ptp_send_request V c ps tx t s))))"
  apply (auto simp: ptp_transaction_def split: prod.splits sum.splits)
   apply (metis ptp_first_receive_written snd_conv)
  apply (metis ptp_first_receive_written ptp_receive_response_written snd_conv)
  done

lemma ptp_send_request_written:
  assumes "pack_param_container (fst (new_ptp_command V c ps s)) = Inr cmd_bytes"
  shows "written (calls (handle (snd (ptp_send_request V c ps tx t s))))
     = written (calls (handle s)) @ cmd_bytes #
       (case tx of None \<Rightarrow> []
        | Some d \<Rightarrow>
           (case pack_data_container
                   \<lparr> dtype = CONTAINER_DATA V, dcode = c,
                     dtransaction_id = transaction_id s, data = d \<rparr> of
              Inl e \<Rightarrow> [] | Inr data_bytes \<Rightarrow> [data_bytes]))"
  using assms
  by (auto simp: ptp_send_request_def new_ptp_command_def Let_def send_ptp_message_def
      bulk_write_def handle_write_def written_append split: prod.splits sum.splits option.splits)

lemma issued_commands_ids:
  "map ptransaction_id (issued_commands V cs s)
     = map (\<lambda>k. transaction_id s + int k) [0..<length cs]"
proof (induction cs arbitrary: s)
  case Nil
  then show ?case by simp
next
  case (Cons call cs)
  obtain c ps tx r t where call: "call = (c, ps, tx, r, t)" by (cases call) auto
  have "map (\<lambda>k. transaction_id s + int k) [0..<Suc (length cs)]
      = transaction_id s # map (\<lambda>k. transaction_id s + 1 + int k) [0..<length cs]"
    by (simp add: upt_conv_Cons map_Suc_upt[symmetric] del: upt_Suc) 
  then show ?case
    using Cons.IH[of "snd (ptp_transaction V c ps tx r t s)"] call
    by (simp add: ptp_transaction_counter new_ptp_command_def)
qed

lemma run_transactions_counter:
  "transaction_id (run_transactions V cs s) = transaction_id s + int (length cs)"
  by (induction cs arbitrary: s) (auto simp: ptp_transaction_counter)


lemma sorted_ids: "sorted_wrt (<) (map (\<lambda>k. (t::int) + int k) [0..<n])"
  by (simp add: sorted_wrt_map sorted_wrt_iff_nth_less)

lemma distinct_ids: "distinct (map (\<lambda>k. (t::int) + int k) [0..<n])"
  by (simp add: distinct_map inj_on_def)

text \<open>
  C2. Every call of \<open>ptp_transaction\<close>, returning or raising, moves the counter by
  exactly one. Over any sequence of calls the Command containers carry the ids
  \<open>t, t + 1, t + 2, ...\<close> from the counter \<open>t\<close> of the camera at the start: strictly
  increasing, none used twice. The bytes of the Command container that a call writes
  hold the id of the counter at the call, and when the call has a payload the Data
  container written after it holds the same id.
\<close>

theorem transaction_ids_strictly_increasing:
  "transaction_id (snd (ptp_transaction V command ps tx_data receiving timeout s))
     = transaction_id s + 1
   \<and> map ptransaction_id (issued_commands V cs s)
     = map (\<lambda>k. transaction_id s + int k) [0..<length cs]
   \<and> sorted_wrt (<) (map ptransaction_id (issued_commands V cs s))
   \<and> distinct (map ptransaction_id (issued_commands V cs s))
   \<and> transaction_id (run_transactions V cs s) = transaction_id s + int (length cs)
   \<and> (\<forall>cmd_bytes.
        pack_param_container (fst (new_ptp_command V command ps s)) = Inr cmd_bytes \<longrightarrow>
          le_uint (take 4 (drop 8 cmd_bytes)) = transaction_id s
          \<and> (tx_data = None \<longrightarrow>
               written (calls (handle (snd (ptp_transaction V command ps tx_data receiving
                                              timeout s))))
                 = written (calls (handle s)) @ [cmd_bytes])
          \<and> (\<forall>tx data_bytes.
               tx_data = Some tx \<and>
               pack_data_container
                 \<lparr> dtype = CONTAINER_DATA V, dcode = command,
                   dtransaction_id = transaction_id s, data = tx \<rparr> = Inr data_bytes \<longrightarrow>
                 written (calls (handle (snd (ptp_transaction V command ps tx_data receiving
                                                timeout s))))
                   = written (calls (handle s)) @ [cmd_bytes, data_bytes]
                 \<and> le_uint (take 4 (drop 8 data_bytes)) = le_uint (take 4 (drop 8 cmd_bytes))))"
proof (intro conjI allI impI)
  show "transaction_id (snd (ptp_transaction V command ps tx_data receiving timeout s))
          = transaction_id s + 1"
    by (rule ptp_transaction_counter)
  show ids: "map ptransaction_id (issued_commands V cs s)
          = map (\<lambda>k. transaction_id s + int k) [0..<length cs]"
    by (rule issued_commands_ids)
  show "sorted_wrt (<) (map ptransaction_id (issued_commands V cs s))"
    unfolding ids by (rule sorted_ids)
  show "distinct (map ptransaction_id (issued_commands V cs s))"
    unfolding ids by (rule distinct_ids)
  show "transaction_id (run_transactions V cs s) = transaction_id s + int (length cs)"
    by (rule run_transactions_counter)
next
  fix cmd_bytes
  assume c: "pack_param_container (fst (new_ptp_command V command ps s)) = Inr cmd_bytes"
  show "le_uint (take 4 (drop 8 cmd_bytes)) = transaction_id s"
    using pack_param_container_tid[OF c] by (simp add: new_ptp_command_def)
next
  fix cmd_bytes
  assume c: "pack_param_container (fst (new_ptp_command V command ps s)) = Inr cmd_bytes"
    and n: "tx_data = None"
  show "written (calls (handle (snd (ptp_transaction V command ps tx_data receiving timeout s))))
          = written (calls (handle s)) @ [cmd_bytes]"
    using ptp_send_request_written[OF c, of tx_data timeout] n
    by (simp add: ptp_transaction_written_eq)
next
  fix cmd_bytes tx data_bytes
  assume c: "pack_param_container (fst (new_ptp_command V command ps s)) = Inr cmd_bytes"
    and d: "tx_data = Some tx \<and>
            pack_data_container
              \<lparr> dtype = CONTAINER_DATA V, dcode = command,
                dtransaction_id = transaction_id s, data = tx \<rparr> = Inr data_bytes"
  show "written (calls (handle (snd (ptp_transaction V command ps tx_data receiving timeout s))))
          = written (calls (handle s)) @ [cmd_bytes, data_bytes]"
    using ptp_send_request_written[OF c, of tx_data timeout] d
    by (simp add: ptp_transaction_written_eq)
  show "le_uint (take 4 (drop 8 data_bytes)) = le_uint (take 4 (drop 8 cmd_bytes))"
    using pack_param_container_tid[OF c] d pack_data_container_tid[of _ data_bytes]
    by (auto simp add: new_ptp_command_def)
qed

text \<open>
  Three calls on a device that answers the first only: the second and the third raise,
  and the ids are 0, 1 and 2. A call with a payload at counter 7 writes a Command and
  a Data container that both carry 7.
\<close>

theorem transaction_ids_strictly_increasing_witness:
  "map ptransaction_id
     (issued_commands std_values
        [(0x1002, [1], None, True, 0), (0x9999, [4, 0], Some ''A/x'', False, 0),
         (0x1003, [], None, True, 0)]
        (fresh_camera [wire_params 3 0x2001 0 []] [])) = [0, 1, 2]
   \<and> transaction_id
     (run_transactions std_values
        [(0x1002, [1], None, True, 0), (0x9999, [4, 0], Some ''A/x'', False, 0),
         (0x1003, [], None, True, 0)]
        (fresh_camera [wire_params 3 0x2001 0 []] [])) = 3
   \<and> pack_param_container
       (fst (new_ptp_command std_values 0x9999 [4, 0]
               ((fresh_camera [] [])\<lparr>transaction_id := 7\<rparr>)))
     = Inr (wire_params 1 0x9999 7 [4, 0])
   \<and> pack_data_container
       \<lparr> dtype = CONTAINER_DATA std_values, dcode = 0x9999, dtransaction_id = 7,
         data = ''A/x'' \<rparr>
     = Inr (wire_data 0x9999 7 ''A/x'')
   \<and> written (calls (handle (snd (ptp_transaction std_values 0x9999 [4, 0] (Some ''A/x'')
                                     False 0 ((fresh_camera [] [])\<lparr>transaction_id := 7\<rparr>)))))
     = [wire_params 1 0x9999 7 [4, 0], wire_data 0x9999 7 ''A/x'']
   \<and> le_uint (take 4 (drop 8 (wire_params 1 0x9999 7 [4, 0]))) = 7
   \<and> le_uint (take 4 (drop 8 (wire_data 0x9999 7 ''A/x''))) = 7
   \<and> written (calls (handle (snd (ptp_transaction std_values 0x9999 [4, 0] None
                                     False 0 ((fresh_camera [] [])\<lparr>transaction_id := 7\<rparr>)))))
     = [wire_params 1 0x9999 7 [4, 0]]"
proof -
  let ?cs = "[(0x1002, [1], None, True, 0), (0x9999, [4, 0], Some ''A/x'', False, 0),
              (0x1003, [], None, True, 0)] :: transact_call list"
  let ?cam = "fresh_camera [wire_params 3 0x2001 0 []] []"
  let ?cam7 = "(fresh_camera [] [])\<lparr>transaction_id := 7\<rparr>"
  have p: "pack_param_container (fst (new_ptp_command std_values 0x9999 [4, 0] ?cam7))
             = Inr (wire_params 1 0x9999 7 [4, 0])"
    by (simp add: new_ptp_command_def fresh_camera_def codec_defs std_values_def)
  have d: "pack_data_container
             \<lparr> dtype = CONTAINER_DATA std_values, dcode = 0x9999,
               dtransaction_id = transaction_id ?cam7, data = ''A/x'' \<rparr>
             = Inr (wire_data 0x9999 7 ''A/x'')"
    by (simp add: fresh_camera_def codec_defs std_values_def)
  have c0: "transaction_id ?cam = 0" "transaction_id ?cam7 = 7"
    "written (calls (handle ?cam7)) = []"
    by (simp_all add: fresh_camera_def)
  note seq = transaction_ids_strictly_increasing
      [where V = std_values and command = "0x1002" and ps = "[1]" and tx_data = None
         and receiving = True and timeout = 0 and s = ?cam and cs = ?cs]
  note with_data = transaction_ids_strictly_increasing
      [where V = std_values and command = "0x9999" and ps = "[4, 0]"
         and tx_data = "Some ''A/x''" and receiving = False and timeout = 0 and s = ?cam7
         and cs = "[]"]
  note without_data = transaction_ids_strictly_increasing
      [where V = std_values and command = "0x9999" and ps = "[4, 0]"
         and tx_data = None and receiving = False and timeout = 0 and s = ?cam7
         and cs = "[]"]
  have ids: "map ptransaction_id (issued_commands std_values ?cs ?cam) = [0, 1, 2]"
    using seq c0 by (simp add: upt_rec_numeral)
  have n: "transaction_id (run_transactions std_values ?cs ?cam) = 3"
    using seq c0 by simp
  have w2: "written (calls (handle (snd (ptp_transaction std_values 0x9999 [4, 0]
               (Some ''A/x'') False 0 ?cam7))))
             = [wire_params 1 0x9999 7 [4, 0], wire_data 0x9999 7 ''A/x'']"
    and t2: "le_uint (take 4 (drop 8 (wire_data 0x9999 7 ''A/x''))) = 7"
    and t1: "le_uint (take 4 (drop 8 (wire_params 1 0x9999 7 [4, 0]))) = 7"
    using with_data p d c0 by auto
  have w1: "written (calls (handle (snd (ptp_transaction std_values 0x9999 [4, 0]
               None False 0 ?cam7))))
             = [wire_params 1 0x9999 7 [4, 0]]"
    using without_data p c0 by auto
  show ?thesis
    using ids n p d w2 t1 t2 w1 c0 by simp
qed

subsection \<open>\<open>capture\<close>\<close>

lemma initiate_capture_checked:
  "initiate_capture V s = (Inr (response, recvd), s') \<Longrightarrow> check_response V response = Inr True"
  by (auto simp: initiate_capture_def check_response_def split: prod.splits sum.splits if_splits)

lemma check_event_calls:
  "check_event V sz timeout s = (r, s') \<Longrightarrow>
     calls (handle s') = calls (handle s) @ [UsbRead EP_INTR sz timeout]"
  by (auto simp: check_event_def handle_read_def pending_def set_pending_def Let_def
      split: prod.splits sum.splits list.splits if_splits)

text \<open>
  C3. Once the session is open and the capture has been initiated, \<open>capture\<close> reads
  exactly two events from the interrupt endpoint. When one is ObjectAdded and the
  other CaptureComplete, in either order, it returns parameter 0 of the ObjectAdded
  event. When neither event is ObjectAdded it raises the IOError of the missing
  ObjectAdded event (so also when CaptureComplete arrives twice); when an ObjectAdded
  event was seen and no CaptureComplete event, it raises the IOError of the missing
  CaptureComplete event (so also when ObjectAdded arrives twice). The ObjectAdded
  check comes first: with neither event seen, its error is the one raised.
\<close>

theorem capture_two_events:
  assumes codes: "EVENT_OBJECT_ADDED V \<noteq> EVENT_CAPTURE_COMPLETE V"
    and opened: "open_session V s = (Inr ok, s1)"
    and initiated: "initiate_capture V s1 = (Inr (response, recvd), s2)"
    and first: "check_event V 512 5000 s2 = (Inr event1, s3)"
    and second: "check_event V 512 5000 s3 = (Inr event2, s4)"
  shows
    "calls (handle s4)
       = calls (handle s2) @ [UsbRead EP_INTR 512 5000, UsbRead EP_INTR 512 5000]
     \<and> (pcode event1 = EVENT_OBJECT_ADDED V \<and> pcode event2 = EVENT_CAPTURE_COMPLETE V \<longrightarrow>
          (\<forall>object_handle others. params event1 = object_handle # others \<longrightarrow>
             capture V s = (Inr object_handle, s4)))
     \<and> (pcode event1 = EVENT_CAPTURE_COMPLETE V \<and> pcode event2 = EVENT_OBJECT_ADDED V \<longrightarrow>
          (\<forall>object_handle others. params event2 = object_handle # others \<longrightarrow>
             capture V s = (Inr object_handle, s4)))
     \<and> (pcode event1 \<noteq> EVENT_OBJECT_ADDED V \<and> pcode event2 \<noteq> EVENT_OBJECT_ADDED V \<longrightarrow>
          capture V s = (Inl ObjectAddedNotReceived, s4))
     \<and> ((pcode event1 = EVENT_OBJECT_ADDED V \<or> pcode event2 = EVENT_OBJECT_ADDED V)
          \<and> pcode event1 \<noteq> EVENT_CAPTURE_COMPLETE V
          \<and> pcode event2 \<noteq> EVENT_CAPTURE_COMPLETE V \<longrightarrow>
          capture V s = (Inl CaptureCompleteNotReceived, s4))"
proof -
  have cap: "capture V s =
     (case classify_events V [event1, event2] (None, None) of
        (None, capture_complete_event) \<Rightarrow> (Inl ObjectAddedNotReceived, s4)
      | (Some obj_added_event, None) \<Rightarrow> (Inl CaptureCompleteNotReceived, s4)
      | (Some obj_added_event, Some capture_complete_event) \<Rightarrow>
          (case params obj_added_event of
             [] \<Rightarrow> (Inl IndexError, s4)
           | object_handle # others \<Rightarrow> (Inr object_handle, s4)))"
    using opened initiated first second initiate_capture_checked[OF initiated]
    by (simp add: capture_def)
  have reads: "calls (handle s4)
       = calls (handle s2) @ [UsbRead EP_INTR 512 5000, UsbRead EP_INTR 512 5000]"
    using check_event_calls[OF first] check_event_calls[OF second] by simp
  show ?thesis
    using codes reads by (auto simp add: cap)
qed

text \<open>
  The two orders of arrival, CaptureComplete twice and ObjectAdded twice, after an
  OpenSession and an InitiateCapture that the device answers with OK.
\<close>

theorem capture_two_events_witness:
  "fst (capture std_values
       (fresh_camera [wire_params 3 0x2001 0 [], wire_params 3 0x2001 1 []]
          [wire_params 4 0x4002 0 [0x1234], wire_params 4 0x400D 0 []]))
     = Inr 0x1234
   \<and> fst (capture std_values
       (fresh_camera [wire_params 3 0x2001 0 [], wire_params 3 0x2001 1 []]
          [wire_params 4 0x400D 0 [], wire_params 4 0x4002 0 [0x1234]]))
     = Inr 0x1234
   \<and> fst (capture std_values
       (fresh_camera [wire_params 3 0x2001 0 [], wire_params 3 0x2001 1 []]
          [wire_params 4 0x400D 0 [], wire_params 4 0x400D 0 []]))
     = Inl ObjectAddedNotReceived
   \<and> fst (capture std_values
       (fresh_camera [wire_params 3 0x2001 0 [], wire_params 3 0x2001 1 []]
          [wire_params 4 0x4002 0 [0x1234], wire_params 4 0x4002 0 [0x1234]]))
     = Inl CaptureCompleteNotReceived"
proof -
  have codes: "EVENT_OBJECT_ADDED std_values \<noteq> EVENT_CAPTURE_COMPLETE std_values"
    by (simp add: std_values_def)
  let ?added = "\<lparr> ptype = 4, pcode = 0x4002, ptransaction_id = 0, params = [0x1234] \<rparr>"
  let ?complete = "\<lparr> ptype = 4, pcode = 0x400D, ptransaction_id = 0, params = [] \<rparr>"
  let ?ok = "\<lparr> ptype = 3, pcode = 0x2001, ptransaction_id = 1, params = [] \<rparr>"
  have added: "pcode ?added = EVENT_OBJECT_ADDED std_values"
    and complete: "pcode ?complete = EVENT_CAPTURE_COMPLETE std_values"
    and added_not_complete: "pcode ?added \<noteq> EVENT_CAPTURE_COMPLETE std_values"
    and complete_not_added: "pcode ?complete \<noteq> EVENT_OBJECT_ADDED std_values"
    and object_handle: "params ?added = 0x1234 # []"
    by (simp_all add: std_values_def)
  have ab: "fst (capture std_values
       (fresh_camera [wire_params 3 0x2001 0 [], wire_params 3 0x2001 1 []]
          [wire_params 4 0x4002 0 [0x1234], wire_params 4 0x400D 0 []]))
     = Inr 0x1234"
  proof -
    let ?cam = "fresh_camera [wire_params 3 0x2001 0 [], wire_params 3 0x2001 1 []]
          [wire_params 4 0x4002 0 [0x1234], wire_params 4 0x400D 0 []]"
    let ?s1 = "snd (open_session std_values ?cam)"
    let ?s2 = "snd (initiate_capture std_values ?s1)"
    let ?s3 = "snd (check_event std_values 512 5000 ?s2)"
    let ?s4 = "snd (check_event std_values 512 5000 ?s3)"
    have opened: "open_session std_values ?cam = (Inr True, ?s1)"
      by (simp add: session_defs run_defs)
    have initiated: "initiate_capture std_values ?s1 = (Inr (?ok, None), ?s2)"
      by (simp add: session_defs run_defs)
    have first: "check_event std_values 512 5000 ?s2 = (Inr ?added, ?s3)"
      by (simp add: session_defs run_defs)
    have second: "check_event std_values 512 5000 ?s3 = (Inr ?complete, ?s4)"
      by (simp add: session_defs run_defs)
    note T = capture_two_events [OF codes opened initiated first second]
    have "capture std_values ?cam = (Inr 0x1234, ?s4)"
      using T[THEN conjunct2, THEN conjunct1, rule_format, OF conjI[OF added complete] object_handle] .
    then show ?thesis by (simp only: fst_conv)
  qed
  have ba: "fst (capture std_values
       (fresh_camera [wire_params 3 0x2001 0 [], wire_params 3 0x2001 1 []]
          [wire_params 4 0x400D 0 [], wire_params 4 0x4002 0 [0x1234]]))
     = Inr 0x1234"
  proof -
    let ?cam = "fresh_camera [wire_params 3 0x2001 0 [], wire_params 3 0x2001 1 []]
          [wire_params 4 0x400D 0 [], wire_params 4 0x4002 0 [0x1234]]"
    let ?s1 = "snd (open_session std_values ?cam)"
    let ?s2 = "snd (initiate_capture std_values ?s1)"
    let ?s3 = "snd (check_event std_values 512 5000 ?s2)"
    let ?s4 = "snd (check_event std_values 512 5000 ?s3)"
    have opened: "open_session std_values ?cam = (Inr True, ?s1)"
      by (simp add: session_defs run_defs)
    have initiated: "initiate_capture std_values ?s1 = (Inr (?ok, None), ?s2)"
      by (simp add: session_defs run_defs)
    have first: "check_event std_values 512 5000 ?s2 = (Inr ?complete, ?s3)"
      by (simp add: session_defs run_defs)
    have second: "check_event std_values 512 5000 ?s3 = (Inr ?added, ?s4)"
      by (simp add: session_defs run_defs)
    note T = capture_two_events [OF codes opened initiated first second]
    have "capture std_values ?cam = (Inr 0x1234, ?s4)"
      using T[THEN conjunct2, THEN conjunct2, THEN conjunct1, rule_format, OF conjI[OF complete added] object_handle] .
    then show ?thesis by (simp only: fst_conv)
  qed
  have bb: "fst (capture std_values
       (fresh_camera [wire_params 3 0x2001 0 [], wire_params 3 0x2001 1 []]
          [wire_params 4 0x400D 0 [], wire_params 4 0x400D 0 []]))
     = Inl ObjectAddedNotReceived"
  proof -
    let ?cam = "fresh_camera [wire_params 3 0x2001 0 [], wire_params 3 0x2001 1 []]
          [wire_params 4 0x400D 0 [], wire_params 4 0x400D 0 []]"
    let ?s1 = "snd (open_session std_values ?cam)"
    let ?s2 = "snd (initiate_capture std_values ?s1)"
    let ?s3 = "snd (check_event std_values 512 5000 ?s2)"
    let ?s4 = "snd (check_event std_values 512 5000 ?s3)"
    have opened: "open_session std_values ?cam = (Inr True, ?s1)"
      by (simp add: session_defs run_defs)
    have initiated: "initiate_capture std_values ?s1 = (Inr (?ok, None), ?s2)"
      by (simp add: session_defs run_defs)
    have first: "check_event std_values 512 5000 ?s2 = (Inr ?complete, ?s3)"
      by (simp add: session_defs run_defs)
    have second: "check_event std_values 512 5000 ?s3 = (Inr ?complete, ?s4)"
      by (simp add: session_defs run_defs)
    note T = capture_two_events [OF codes opened initiated first second]
    have "capture std_values ?cam = (Inl ObjectAddedNotReceived, ?s4)"
      using T[THEN conjunct2, THEN conjunct2, THEN conjunct2, THEN conjunct1, rule_format,
              OF conjI[OF complete_not_added complete_not_added]] .
    then show ?thesis by (simp only: fst_conv)
  qed
  have aa: "fst (capture std_values
       (fresh_camera [wire_params 3 0x2001 0 [], wire_params 3 0x2001 1 []]
          [wire_params 4 0x4002 0 [0x1234], wire_params 4 0x4002 0 [0x1234]]))
     = Inl CaptureCompleteNotReceived"
  proof -
    let ?cam = "fresh_camera [wire_params 3 0x2001 0 [], wire_params 3 0x2001 1 []]
          [wire_params 4 0x4002 0 [0x1234], wire_params 4 0x4002 0 [0x1234]]"
    let ?s1 = "snd (open_session std_values ?cam)"
    let ?s2 = "snd (initiate_capture std_values ?s1)"
    let ?s3 = "snd (check_event std_values 512 5000 ?s2)"
    let ?s4 = "snd (check_event std_values 512 5000 ?s3)"
    have opened: "open_session std_values ?cam = (Inr True, ?s1)"
      by (simp add: session_defs run_defs)
    have initiated: "initiate_capture std_values ?s1 = (Inr (?ok, None), ?s2)"
      by (simp add: session_defs run_defs)
    have first: "check_event std_values 512 5000 ?s2 = (Inr ?added, ?s3)"
      by (simp add: session_defs run_defs)
    have second: "check_event std_values 512 5000 ?s3 = (Inr ?added, ?s4)"
      by (simp add: session_defs run_defs)
    note T = capture_two_events [OF codes opened initiated first second]
    have "capture std_values ?cam = (Inl CaptureCompleteNotReceived, ?s4)"
      using T[THEN conjunct2, THEN conjunct2, THEN conjunct2, THEN conjunct2, rule_format,
              OF conjI[OF disjI1[OF added] conjI[OF added_not_complete added_not_complete]]] .
    then show ?thesis by (simp only: fst_conv)
  qed
  show ?thesis
    by (intro conjI) (rule ab ba bb aa)+
qed

subsection \<open>The script-wait loop: messages and statuses\<close>

text \<open>
  C4. With no deadline (\<open>timeout = 0\<close>) and the statuses RUN, MSG, MSG and 0 from four
  successive polls, the wait sleeps once, reads one message after each MSG status
  and returns exactly these two messages, in order, on the camera as the fourth poll
  left it. A status that is not 0 and has neither the RUN nor the MSG bit raises the
  PTPError that carries the raw status, at the first poll of the wait and at any
  later turn of the loop. RUN and MSG are distinct bits and the idle status is 0.
\<close>

theorem wait_for_script_return_messages:
  assumes run: "STATUS_RUN V \<noteq> 0"
    and msg: "STATUS_MSG V \<noteq> 0"
    and apart: "STATUS_MSG V AND STATUS_RUN V = 0"
    and none: "STATUS_NONE V = 0"
  shows
    "(\<forall>s s1 s2 s3 s4 s5 s6 m1 m2.
        check_script_status V s = (Inr (STATUS_RUN V), s1) \<longrightarrow>
        check_script_status V (time_sleep (50 / 1000) s1) = (Inr (STATUS_MSG V), s2) \<longrightarrow>
        read_script_message V s2 = (Inr m1, s3) \<longrightarrow>
        check_script_status V s3 = (Inr (STATUS_MSG V), s4) \<longrightarrow>
        read_script_message V s4 = (Inr m2, s5) \<longrightarrow>
        check_script_status V s5 = (Inr 0, s6) \<longrightarrow>
          wait_for_script_return V 0 s = (Inr [m1, m2], s6))
     \<and> (\<forall>STATUS timeout s s1.
        check_script_status V s = (Inr STATUS, s1) \<longrightarrow>
        STATUS \<noteq> 0 \<longrightarrow> STATUS AND STATUS_RUN V = 0 \<longrightarrow> STATUS AND STATUS_MSG V = 0 \<longrightarrow>
          wait_for_script_return V timeout s
            = (Inl (PTPError (UNDEFINED V) (InvalidScriptStatus STATUS)), s1))
     \<and> (\<forall>STATUS timeout t_start msg_count msgs s s1.
        check_script_status V s = (Inr STATUS, s1) \<longrightarrow>
        STATUS \<noteq> 0 \<longrightarrow> STATUS AND STATUS_RUN V = 0 \<longrightarrow> STATUS AND STATUS_MSG V = 0 \<longrightarrow>
          wait_for_script_loop V timeout t_start msg_count msgs s
            = (Inl (PTPError (UNDEFINED V) (InvalidScriptStatus STATUS)), s1))"
proof (intro conjI allI impI)
  fix s s1 s2 s3 s4 s5 s6 m1 m2
  assume p1: "check_script_status V s = (Inr (STATUS_RUN V), s1)"
    and p2: "check_script_status V (time_sleep (50 / 1000) s1) = (Inr (STATUS_MSG V), s2)"
    and r1: "read_script_message V s2 = (Inr m1, s3)"
    and p3: "check_script_status V s3 = (Inr (STATUS_MSG V), s4)"
    and r2: "read_script_message V s4 = (Inr m2, s5)"
    and p4: "check_script_status V s5 = (Inr 0, s6)"
  have last: "wait_for_script_loop V 0 t 3 [m1, m2] s5 = (Inr [m1, m2], s6)" for t
    using p4 none by (subst wait_for_script_loop.simps) simp
  have fourth: "wait_for_script_loop V 0 t 2 [m1] s3 = (Inr [m1, m2], s6)" for t
    using p3 r2 msg apart last[of t]
    by (subst wait_for_script_loop.simps) (simp split: prod.splits)
  have second: "wait_for_script_loop V 0 t 1 [] (time_sleep (50 / 1000) s1)
                  = (Inr [m1, m2], s6)" for t
    using p2 r1 msg apart fourth[of t]
    by (subst wait_for_script_loop.simps) (simp split: prod.splits)
  have "wait_for_script_loop V 0 t 1 [] s = (Inr [m1, m2], s6)" for t
    using p1 run second[of t]
    by (subst wait_for_script_loop.simps) (simp add: Let_def)
  then show "wait_for_script_return V 0 s = (Inr [m1, m2], s6)"
    by (simp add: wait_for_script_return_def)
next
  fix STATUS timeout s s1
  assume "check_script_status V s = (Inr STATUS, s1)" "STATUS \<noteq> 0"
    "STATUS AND STATUS_RUN V = 0" "STATUS AND STATUS_MSG V = 0"
  then have "wait_for_script_loop V timeout t 1 [] s
            = (Inl (PTPError (UNDEFINED V) (InvalidScriptStatus STATUS)), s1)" for t
    using none by (subst wait_for_script_loop.simps) simp
  then show "wait_for_script_return V timeout s
            = (Inl (PTPError (UNDEFINED V) (InvalidScriptStatus STATUS)), s1)"
    by (simp add: wait_for_script_return_def)
next
  fix STATUS timeout t_start msg_count msgs s s1
  assume "check_script_status V s = (Inr STATUS, s1)" "STATUS \<noteq> 0"
    "STATUS AND STATUS_RUN V = 0" "STATUS AND STATUS_MSG V = 0"
  then show "wait_for_script_loop V timeout t_start msg_count msgs s
            = (Inl (PTPError (UNDEFINED V) (InvalidScriptStatus STATUS)), s1)"
    using none by (subst wait_for_script_loop.simps) simp
qed

text \<open>
  A device that reports RUN, MSG, MSG and 0, with the messages \<open>one\<close> and \<open>two\<close>; and a
  device that reports the status 4.
\<close>

theorem wait_for_script_return_messages_witness:
  "fst (wait_for_script_return std_values 0
          (fresh_camera
             [wire_params 3 0x2001 0 [1], wire_params 3 0x2001 1 [2],
              wire_data 0x9999 2 ''one'', wire_params 3 0x2001 2 [1, 7],
              wire_params 3 0x2001 3 [2],
              wire_data 0x9999 4 ''two'', wire_params 3 0x2001 4 [1, 7],
              wire_params 3 0x2001 5 [0]] []))
     = Inr [(\<lparr> ptype = 3, pcode = 0x2001, ptransaction_id = 2, params = [1, 7] \<rparr>,
             Some (DataC \<lparr> dtype = 2, dcode = 0x9999, dtransaction_id = 2, data = ''one'' \<rparr>)),
            (\<lparr> ptype = 3, pcode = 0x2001, ptransaction_id = 4, params = [1, 7] \<rparr>,
             Some (DataC \<lparr> dtype = 2, dcode = 0x9999, dtransaction_id = 4, data = ''two'' \<rparr>))]
   \<and> fst (wait_for_script_return std_values 0
          (fresh_camera [wire_params 3 0x2001 0 [4]] []))
     = Inl (PTPError 0x2000 (InvalidScriptStatus 4))"
proof -
  have run: "STATUS_RUN std_values \<noteq> 0"
    and msg: "STATUS_MSG std_values \<noteq> 0"
    and apart: "STATUS_MSG std_values AND STATUS_RUN std_values = 0"
    and none: "STATUS_NONE std_values = 0"
    and four: "(4::int) \<noteq> 0" "4 AND STATUS_RUN std_values = 0" "4 AND STATUS_MSG std_values = 0"
    and undefined: "UNDEFINED std_values = 0x2000"
    by (simp_all add: std_values_def)
  note T = wait_for_script_return_messages [OF run msg apart none]
  let ?m1 = "(\<lparr> ptype = 3, pcode = 0x2001, ptransaction_id = 2, params = [1, 7] \<rparr>,
             Some (DataC \<lparr> dtype = 2, dcode = 0x9999, dtransaction_id = 2, data = ''one'' \<rparr>))"
  let ?m2 = "(\<lparr> ptype = 3, pcode = 0x2001, ptransaction_id = 4, params = [1, 7] \<rparr>,
             Some (DataC \<lparr> dtype = 2, dcode = 0x9999, dtransaction_id = 4, data = ''two'' \<rparr>))"
  have a: "fst (wait_for_script_return std_values 0
          (fresh_camera
             [wire_params 3 0x2001 0 [1], wire_params 3 0x2001 1 [2],
              wire_data 0x9999 2 ''one'', wire_params 3 0x2001 2 [1, 7],
              wire_params 3 0x2001 3 [2],
              wire_data 0x9999 4 ''two'', wire_params 3 0x2001 4 [1, 7],
              wire_params 3 0x2001 5 [0]] []))
     = Inr [?m1, ?m2]"
  proof -
    let ?cam = "fresh_camera
             [wire_params 3 0x2001 0 [1], wire_params 3 0x2001 1 [2],
              wire_data 0x9999 2 ''one'', wire_params 3 0x2001 2 [1, 7],
              wire_params 3 0x2001 3 [2],
              wire_data 0x9999 4 ''two'', wire_params 3 0x2001 4 [1, 7],
              wire_params 3 0x2001 5 [0]] []"
    let ?s1 = "snd (check_script_status std_values ?cam)"
    let ?s2 = "snd (check_script_status std_values (time_sleep (50 / 1000) ?s1))"
    let ?s3 = "snd (read_script_message std_values ?s2)"
    let ?s4 = "snd (check_script_status std_values ?s3)"
    let ?s5 = "snd (read_script_message std_values ?s4)"
    let ?s6 = "snd (check_script_status std_values ?s5)"
    have p1: "check_script_status std_values ?cam = (Inr (STATUS_RUN std_values), ?s1)"
      by (simp add: chdk_defs run_defs)
    have p2: "check_script_status std_values (time_sleep (50 / 1000) ?s1)
                = (Inr (STATUS_MSG std_values), ?s2)"
      by (simp add: chdk_defs run_defs)
    have r1: "read_script_message std_values ?s2 = (Inr ?m1, ?s3)"
      by (simp add: chdk_defs run_defs)
    have p3: "check_script_status std_values ?s3 = (Inr (STATUS_MSG std_values), ?s4)"
      by (simp add: chdk_defs run_defs)
    have r2: "read_script_message std_values ?s4 = (Inr ?m2, ?s5)"
      by (simp add: chdk_defs run_defs)
    have p4: "check_script_status std_values ?s5 = (Inr 0, ?s6)"
      by (simp add: chdk_defs run_defs)
    have "wait_for_script_return std_values 0 ?cam = (Inr [?m1, ?m2], ?s6)"
      using T[THEN conjunct1, rule_format, OF p1 p2 r1 p3 r2 p4] .
    then show ?thesis by (simp only: fst_conv)
  qed
  have b: "fst (wait_for_script_return std_values 0
          (fresh_camera [wire_params 3 0x2001 0 [4]] []))
     = Inl (PTPError 0x2000 (InvalidScriptStatus 4))"
  proof -
    let ?cam = "fresh_camera [wire_params 3 0x2001 0 [4]] []"
    let ?s1 = "snd (check_script_status std_values ?cam)"
    have p: "check_script_status std_values ?cam = (Inr 4, ?s1)"
      by (simp add: chdk_defs run_defs)
    have "wait_for_script_return std_values 0 ?cam
            = (Inl (PTPError (UNDEFINED std_values) (InvalidScriptStatus 4)), ?s1)"
      using T[THEN conjunct2, THEN conjunct1, rule_format, OF p four] .
    then show ?thesis by (simp only: fst_conv undefined)
  qed
  show ?thesis
    by (intro conjI) (rule a b)+
qed

subsection \<open>The script-wait loop: the deadline\<close>

text \<open>
  C5. With a positive deadline the wait should raise exactly when the time elapsed
  since it began exceeds the deadline. The loop compares the other way round
  (\<open>timeout > time.time() - t_start\<close>), after the sleep. With a deadline of 10 seconds
  and a script that is running, the first poll sleeps 50 ms and raises the timeout
  at once, 0.05 seconds after the wait began. With a deadline of 10 ms and a script
  that runs for two polls, the wait passes the deadline at the first poll, raises
  nothing and returns after 0.1 seconds.
\<close>

theorem wait_for_script_deadline_inverted:
  "fst (wait_for_script_return std_values 10
          (fresh_camera [wire_params 3 0x2001 0 [1]] []))
     = Inl (PTPError 0x201F TimeoutWaitingForScript)
   \<and> clock (snd (wait_for_script_return std_values 10
          (fresh_camera [wire_params 3 0x2001 0 [1]] []))) = 1 / 20
   \<and> fst (wait_for_script_return std_values (1 / 100)
          (fresh_camera
             [wire_params 3 0x2001 0 [1], wire_params 3 0x2001 1 [1],
              wire_params 3 0x2001 2 [0]] []))
     = Inr []
   \<and> clock (snd (wait_for_script_return std_values (1 / 100)
          (fresh_camera
             [wire_params 3 0x2001 0 [1], wire_params 3 0x2001 1 [1],
              wire_params 3 0x2001 2 [0]] []))) = 1 / 10"
  by (simp add: chdk_defs transaction_defs device_defs codec_defs std_values_def Let_def)

subsection \<open>\<open>download_file\<close>: store, fetch, clear\<close>

text \<open>
  C6. Let the store step (TempData with the NUL-terminated filename) return a
  response whose parameter 0 is the status. When the status is OK, the fetch step
  returns a Data container and the clear step returns, \<open>download_file\<close> returns
  exactly the bytes of that Data container, on the camera as the clear step left
  it. When the status is not OK, \<open>download_file\<close> raises an error that carries the
  raw status (the PTPError with the table's message, or the KeyError of the status
  when the table has none) on the camera as the store step left it: neither the
  fetch nor the clear transaction is made.
\<close>

theorem download_file_store_fetch_clear:
  assumes stored:
      "ptp_transaction V (PTP_OC_CHDK V) [CHDK_TempData V, 0]
         (Some (if \<not> endswith_NUL filename then filename @ [CHR 0x00] else filename))
         False timeout s
       = (Inr (tempdata_response, recvd), s1)"
    and status: "params tempdata_response = ret_code # others"
  shows
    "(ret_code = CHDK_OK V \<longrightarrow>
        (\<forall>dlfile_response d s2 clear_response recvd' s3.
           ptp_transaction V (PTP_OC_CHDK V) [CHDK_DownloadFile V] None True timeout s1
             = (Inr (dlfile_response, Some (DataC d)), s2) \<longrightarrow>
           ptp_transaction V (PTP_OC_CHDK V) [CHDK_TempData V, TEMPDATA_CLEAR V] None False
               timeout s2
             = (Inr (clear_response, recvd'), s3) \<longrightarrow>
           download_file V filename timeout s = (Inr (data d), s3)))
     \<and> (ret_code \<noteq> CHDK_OK V \<longrightarrow>
        download_file V filename timeout s
          = (Inl (case CHDK_message V ret_code of
                    None \<Rightarrow> KeyError ret_code
                  | Some message \<Rightarrow> PTPError ret_code (TableMessage message)),
             s1))"
proof (intro conjI allI impI)
  fix dlfile_response d s2 clear_response recvd' s3
  assume ok: "ret_code = CHDK_OK V"
    and fetched: "ptp_transaction V (PTP_OC_CHDK V) [CHDK_DownloadFile V] None True timeout s1
             = (Inr (dlfile_response, Some (DataC d)), s2)"
    and cleared: "ptp_transaction V (PTP_OC_CHDK V) [CHDK_TempData V, TEMPDATA_CLEAR V] None
               False timeout s2
             = (Inr (clear_response, recvd'), s3)"
  have "check_tempdata_response V tempdata_response = Inr ()"
    using status ok by (simp add: check_tempdata_response_def)
  then show "download_file V filename timeout s = (Inr (data d), s3)"
    using stored fetched cleared by (simp add: download_file_def Let_def)
next
  assume bad: "ret_code \<noteq> CHDK_OK V"
  have "check_tempdata_response V tempdata_response
          = Inl (case CHDK_message V ret_code of
                    None \<Rightarrow> KeyError ret_code
                  | Some message \<Rightarrow> PTPError ret_code (TableMessage message))"
    using status bad by (simp add: check_tempdata_response_def split: option.splits)
  then show "download_file V filename timeout s
          = (Inl (case CHDK_message V ret_code of
                    None \<Rightarrow> KeyError ret_code
                  | Some message \<Rightarrow> PTPError ret_code (TableMessage message)),
             s1)"
    using stored by (simp add: download_file_def Let_def)
qed

text \<open>
  A download of \<open>JPEG\<close>; a store step answered with the status 0x2002, after which the
  three transfers of the fetch and clear steps are still pending on the device; and a
  store step answered with a status that the message table does not know.
\<close>

theorem download_file_store_fetch_clear_witness:
  "fst (download_file std_values ''A/x.jpg'' 0
          (fresh_camera
             [wire_params 3 0x2001 0 [0x2001], wire_data 0x9999 1 ''JPEG'',
              wire_params 3 0x2001 1 [0x2001], wire_params 3 0x2001 2 [0x2001]] []))
     = Inr ''JPEG''
   \<and> download_file std_values ''A/x.jpg'' 0
          (fresh_camera
             [wire_params 3 0x2001 0 [0x2002], wire_data 0x9999 1 ''JPEG'',
              wire_params 3 0x2001 1 [0x2001], wire_params 3 0x2001 2 [0x2001]] [])
     = (Inl (PTPError 0x2002 (TableMessage ''General Error'')),
        snd (ptp_transaction std_values (PTP_OC_CHDK std_values) [CHDK_TempData std_values, 0]
               (Some (''A/x.jpg'' @ [CHR 0x00])) False 0
               (fresh_camera
                  [wire_params 3 0x2001 0 [0x2002], wire_data 0x9999 1 ''JPEG'',
                   wire_params 3 0x2001 1 [0x2001], wire_params 3 0x2001 2 [0x2001]] [])))
   \<and> bulk_in (handle (snd (ptp_transaction std_values (PTP_OC_CHDK std_values)
               [CHDK_TempData std_values, 0] (Some (''A/x.jpg'' @ [CHR 0x00])) False 0
               (fresh_camera
                  [wire_params 3 0x2001 0 [0x2002], wire_data 0x9999 1 ''JPEG'',
                   wire_params 3 0x2001 1 [0x2001], wire_params 3 0x2001 2 [0x2001]] []))))
     = [wire_data 0x9999 1 ''JPEG'', wire_params 3 0x2001 1 [0x2001],
        wire_params 3 0x2001 2 [0x2001]]
   \<and> fst (download_file std_values ''A/x.jpg'' 0
          (fresh_camera [wire_params 3 0x2001 0 [0x2019]] []))
     = Inl (KeyError 0x2019)"
proof -
  let ?name = "if \<not> endswith_NUL ''A/x.jpg'' then ''A/x.jpg'' @ [CHR 0x00] else ''A/x.jpg''"
  have name: "?name = ''A/x.jpg'' @ [CHR 0x00]"
    by (simp add: endswith_NUL_def)
  have a: "fst (download_file std_values ''A/x.jpg'' 0
          (fresh_camera
             [wire_params 3 0x2001 0 [0x2001], wire_data 0x9999 1 ''JPEG'',
              wire_params 3 0x2001 1 [0x2001], wire_params 3 0x2001 2 [0x2001]] []))
     = Inr ''JPEG''"
  proof -
    let ?cam = "fresh_camera
             [wire_params 3 0x2001 0 [0x2001], wire_data 0x9999 1 ''JPEG'',
              wire_params 3 0x2001 1 [0x2001], wire_params 3 0x2001 2 [0x2001]] []"
    let ?store = "ptp_transaction std_values (PTP_OC_CHDK std_values)
                    [CHDK_TempData std_values, 0] (Some ?name) False 0 ?cam"
    let ?s1 = "snd ?store"
    let ?fetch = "ptp_transaction std_values (PTP_OC_CHDK std_values)
                    [CHDK_DownloadFile std_values] None True 0 ?s1"
    let ?s2 = "snd ?fetch"
    let ?clear = "ptp_transaction std_values (PTP_OC_CHDK std_values)
                    [CHDK_TempData std_values, TEMPDATA_CLEAR std_values] None False 0 ?s2"
    let ?s3 = "snd ?clear"
    let ?r0 = "\<lparr> ptype = 3, pcode = 0x2001, ptransaction_id = 0, params = [0x2001] \<rparr>"
    let ?r1 = "\<lparr> ptype = 3, pcode = 0x2001, ptransaction_id = 1, params = [0x2001] \<rparr>"
    let ?r2 = "\<lparr> ptype = 3, pcode = 0x2001, ptransaction_id = 2, params = [0x2001] \<rparr>"
    let ?d = "\<lparr> dtype = 2, dcode = 0x9999, dtransaction_id = 1, data = ''JPEG'' \<rparr>"
    have stored: "?store = (Inr (?r0, None), ?s1)"
      by (simp add: chdk_defs run_defs)
    have status: "params ?r0 = 0x2001 # []" by simp
    have ok: "0x2001 = CHDK_OK std_values" by (simp add: std_values_def)
    have fetched: "?fetch = (Inr (?r1, Some (DataC ?d)), ?s2)"
      by (simp add: chdk_defs run_defs)
    have cleared: "?clear = (Inr (?r2, None), ?s3)"
      by (simp add: chdk_defs run_defs)
    have "download_file std_values ''A/x.jpg'' 0 ?cam = (Inr (data ?d), ?s3)"
      using download_file_store_fetch_clear
              [OF stored status, THEN conjunct1, rule_format, OF ok fetched cleared] .
    then show ?thesis by simp
  qed
  have b: "download_file std_values ''A/x.jpg'' 0
          (fresh_camera
             [wire_params 3 0x2001 0 [0x2002], wire_data 0x9999 1 ''JPEG'',
              wire_params 3 0x2001 1 [0x2001], wire_params 3 0x2001 2 [0x2001]] [])
     = (Inl (PTPError 0x2002 (TableMessage ''General Error'')),
        snd (ptp_transaction std_values (PTP_OC_CHDK std_values) [CHDK_TempData std_values, 0]
               (Some (''A/x.jpg'' @ [CHR 0x00])) False 0
               (fresh_camera
                  [wire_params 3 0x2001 0 [0x2002], wire_data 0x9999 1 ''JPEG'',
                   wire_params 3 0x2001 1 [0x2001], wire_params 3 0x2001 2 [0x2001]] [])))"
  proof -
    let ?cam = "fresh_camera
             [wire_params 3 0x2001 0 [0x2002], wire_data 0x9999 1 ''JPEG'',
              wire_params 3 0x2001 1 [0x2001], wire_params 3 0x2001 2 [0x2001]] []"
    let ?store = "ptp_transaction std_values (PTP_OC_CHDK std_values)
                    [CHDK_TempData std_values, 0] (Some ?name) False 0 ?cam"
    let ?s1 = "snd ?store"
    let ?r0 = "\<lparr> ptype = 3, pcode = 0x2001, ptransaction_id = 0, params = [0x2002] \<rparr>"
    have stored: "?store = (Inr (?r0, None), ?s1)"
      by (simp add: chdk_defs run_defs)
    have status: "params ?r0 = 0x2002 # []" by simp
    have bad: "0x2002 \<noteq> CHDK_OK std_values" by (simp add: std_values_def)
    have message: "CHDK_message std_values 0x2002 = Some ''General Error''"
      by (simp add: std_values_def)
    have "download_file std_values ''A/x.jpg'' 0 ?cam
            = (Inl (case CHDK_message std_values 0x2002 of
                      None \<Rightarrow> KeyError 0x2002
                    | Some message \<Rightarrow> PTPError 0x2002 (TableMessage message)), ?s1)"
      using download_file_store_fetch_clear
              [OF stored status, THEN conjunct2, rule_format, OF bad] .
    then show ?thesis by (simp only: message option.case name)
  qed
  have b': "bulk_in (handle (snd (ptp_transaction std_values (PTP_OC_CHDK std_values)
               [CHDK_TempData std_values, 0] (Some (''A/x.jpg'' @ [CHR 0x00])) False 0
               (fresh_camera
                  [wire_params 3 0x2001 0 [0x2002], wire_data 0x9999 1 ''JPEG'',
                   wire_params 3 0x2001 1 [0x2001], wire_params 3 0x2001 2 [0x2001]] []))))
     = [wire_data 0x9999 1 ''JPEG'', wire_params 3 0x2001 1 [0x2001],
        wire_params 3 0x2001 2 [0x2001]]"
    by (simp add: run_defs)
  have c: "fst (download_file std_values ''A/x.jpg'' 0
          (fresh_camera [wire_params 3 0x2001 0 [0x2019]] []))
     = Inl (KeyError 0x2019)"
  proof -
    let ?cam = "fresh_camera [wire_params 3 0x2001 0 [0x2019]] []"
    let ?store = "ptp_transaction std_values (PTP_OC_CHDK std_values)
                    [CHDK_TempData std_values, 0] (Some ?name) False 0 ?cam"
    let ?s1 = "snd ?store"
    let ?r0 = "\<lparr> ptype = 3, pcode = 0x2001, ptransaction_id = 0, params = [0x2019] \<rparr>"
    have stored: "?store = (Inr (?r0, None), ?s1)"
      by (simp add: chdk_defs run_defs)
    have status: "params ?r0 = 0x2019 # []" by simp
    have bad: "0x2019 \<noteq> CHDK_OK std_values" by (simp add: std_values_def)
    have message: "CHDK_message std_values 0x2019 = None"
      by (simp add: std_values_def)
    have "download_file std_values ''A/x.jpg'' 0 ?cam
            = (Inl (case CHDK_message std_values 0x2019 of
                      None \<Rightarrow> KeyError 0x2019
                    | Some message \<Rightarrow> PTPError 0x2019 (TableMessage message)), ?s1)"
      using download_file_store_fetch_clear
              [OF stored status, THEN conjunct2, rule_format, OF bad] .
    then show ?thesis by (simp only: message option.case fst_conv)
  qed
  show ?thesis
    by (intro conjI) (rule a b b' c)+
qed

subsection \<open>\<open>download_file\<close>: the status of the fetch step\<close>

text \<open>
  C7. The status of the DownloadFile transaction should be checked. The second
  check of \<open>download_file\<close> reads \<open>tempdata_response\<close> again, the response of the store
  step, and never \<open>dlfile_response\<close>. On a device that stores the name (status OK),
  then delivers a Data container followed by a response with the status 0x2002,
  \<open>download_file\<close> raises nothing and returns the bytes. When the device answers the
  fetch with that response alone, the clear step still runs and the call ends in
  the AttributeError of \<open>dlfile_data.data\<close> on \<open>None\<close>, not in a PTPError.
\<close>

theorem download_file_ignores_fetch_status:
  "fst (download_file std_values ''A/x.jpg'' 0
          (fresh_camera
             [wire_params 3 0x2001 0 [0x2001], wire_data 0x9999 1 ''JPEG'',
              wire_params 3 0x2002 1 [0x2002], wire_params 3 0x2001 2 [0x2001]] []))
     = Inr ''JPEG''
   \<and> fst (download_file std_values ''A/x.jpg'' 0
          (fresh_camera
             [wire_params 3 0x2001 0 [0x2001],
              wire_params 3 0x2002 1 [0x2002], wire_params 3 0x2001 2 [0x2001]] []))
     = Inl (AttributeError ''data'')"
  by (simp add: chdk_defs transaction_defs device_defs codec_defs std_values_def Let_def)

subsection \<open>\<open>upload_file\<close>\<close>

text \<open>
  C8. With the remote filename omitted, the name written into the upload payload
  should be the base name of the local path. The code takes the base name of the
  omitted remote filename itself (\<open>path.basename(remote_filename)\<close> with
  \<open>remote_filename is None\<close>), which raises: for every local file and every file
  system no payload is built, and \<open>upload_file\<close> raises before it touches the camera.
\<close>

theorem upload_default_remote_name_raises:
  "pack_file_for_upload fs local_filename None = Inl (AttributeError ''rfind'')
   \<and> upload_file V fs local_filename None timeout s = (Inl (AttributeError ''rfind''), s)"
  by (simp add: pack_file_for_upload_def path_basename_def upload_file_def)

text \<open>
  C10. \<open>upload_file\<close> never returns: every call raises. A call whose payload was
  built and whose transaction completed raises the NameError of \<open>ret_code\<close>, whatever
  the device responded, and leaves the camera as the transaction left it; and no
  call raises the PTPError that the status check was written to raise.
\<close>

theorem upload_file_never_returns:
  "(\<exists>e. fst (upload_file V fs local_filename remote_filename timeout s) = Inl e)
   \<and> (\<forall>filestr response recvd s1.
        pack_file_for_upload fs local_filename remote_filename = Inr filestr \<and>
        ptp_transaction V (PTP_OC_CHDK V) [CHDK_UploadFile V] (Some filestr) False timeout s
          = (Inr (response, recvd), s1)
        \<longrightarrow> upload_file V fs local_filename remote_filename timeout s
              = (Inl (NameError ''ret_code''), s1))
   \<and> (\<forall>code message.
        fst (upload_file V fs local_filename remote_filename timeout s)
          \<noteq> Inl (PTPError code message))"
proof (intro conjI allI impI)
  show "\<exists>e. fst (upload_file V fs local_filename remote_filename timeout s) = Inl e"
    by (auto simp: upload_file_def split: sum.splits prod.splits)
next
  fix filestr response recvd s1
  assume "pack_file_for_upload fs local_filename remote_filename = Inr filestr \<and>
        ptp_transaction V (PTP_OC_CHDK V) [CHDK_UploadFile V] (Some filestr) False timeout s
          = (Inr (response, recvd), s1)"
  then show "upload_file V fs local_filename remote_filename timeout s
              = (Inl (NameError ''ret_code''), s1)"
    by (simp add: upload_file_def)
next
  fix code message
  have p: "pack_file_for_upload fs local_filename remote_filename
             \<noteq> Inl (PTPError code message)"
    by (auto simp: pack_file_for_upload_def path_basename_def struct_pack_I_chars_def
        struct_pack_B_star_def Let_def split: option.splits sum.splits if_splits
        dest: pack_I_error)
  show "fst (upload_file V fs local_filename remote_filename timeout s)
          \<noteq> Inl (PTPError code message)"
    using p by (auto simp: upload_file_def transport_error_def split: sum.splits prod.splits
        dest!: ptp_transaction_error)
qed

text \<open>
  An upload that reaches the status check: an empty file sent under the remote name
  \<open>'\0'\<close>, to a device that answers with an OK response.
\<close>

theorem upload_file_never_returns_witness:
  "pack_file_for_upload [''empty.bin'' \<mapsto> []] ''empty.bin'' (Some [CHR 0x00])
     = Inr [CHR 0x01, CHR 0x00, CHR 0x00, CHR 0x00, CHR 0x00]
   \<and> fst (ptp_transaction std_values (PTP_OC_CHDK std_values) [CHDK_UploadFile std_values]
            (Some [CHR 0x01, CHR 0x00, CHR 0x00, CHR 0x00, CHR 0x00]) False 0
            (fresh_camera [wire_params 3 0x2001 0 [0x2001]] []))
     = Inr (\<lparr> ptype = 3, pcode = 0x2001, ptransaction_id = 0, params = [0x2001] \<rparr>, None)
   \<and> fst (upload_file std_values [''empty.bin'' \<mapsto> []] ''empty.bin'' (Some [CHR 0x00]) 0
            (fresh_camera [wire_params 3 0x2001 0 [0x2001]] []))
     = Inl (NameError ''ret_code'')"
proof -
  let ?cam = "fresh_camera [wire_params 3 0x2001 0 [0x2001]] []"
  let ?fs = "[''empty.bin'' \<mapsto> []] :: string \<rightharpoonup> string"
  let ?tx = "ptp_transaction std_values (PTP_OC_CHDK std_values) [CHDK_UploadFile std_values]
            (Some [CHR 0x01, CHR 0x00, CHR 0x00, CHR 0x00, CHR 0x00]) False 0 ?cam"
  have p: "pack_file_for_upload ?fs ''empty.bin'' (Some [CHR 0x00])
             = Inr [CHR 0x01, CHR 0x00, CHR 0x00, CHR 0x00, CHR 0x00]"
    by (simp add: upload_defs codec_defs)
  have t: "fst ?tx
             = Inr (\<lparr> ptype = 3, pcode = 0x2001, ptransaction_id = 0, params = [0x2001] \<rparr>, None)"
    by (simp add: transaction_defs device_defs codec_defs std_values_def Let_def)
  then have t': "?tx
     = (Inr (\<lparr> ptype = 3, pcode = 0x2001, ptransaction_id = 0, params = [0x2001] \<rparr>, None),
        snd ?tx)"
    by (metis prod.collapse)
  have "upload_file std_values ?fs ''empty.bin'' (Some [CHR 0x00]) 0 ?cam
          = (Inl (NameError ''ret_code''), snd ?tx)"
    using upload_file_never_returns [of std_values ?fs "''empty.bin''" "Some [CHR 0x00]" 0 ?cam]
      p t' by blast
  then show ?thesis using p t by simp
qed

subsection \<open>The chunked receive\<close>





end
